theory Spec2Isabelle
  imports Complex_Main "HOL-Library.AList"
begin

section \<open>JavaScript values\<close>

text \<open>
  The loader works on what \<^verbatim>\<open>JSON.parse\<close> returns and the configuration classes on
  plain records of \<^verbatim>\<open>unknown\<close> values. A number is an IEEE double: every finite double
  is a rational, and the code only compares numbers with integer constants, so a finite
  number is modelled by its exact value, next to the three special values.
\<close>

datatype jsnum = Finite rat | NaN | PosInf | NegInf

datatype jsval =
    JUndefined
  | JNull
  | JBool bool
  | JNum jsnum
  | JStr string
  | JArr "jsval list"
  | JObj "(string \<times> jsval) list"

text \<open>The relational operators \<^verbatim>\<open><\<close> and \<^verbatim>\<open>>\<close> against a finite constant.\<close>

fun js_lt :: "jsnum \<Rightarrow> rat \<Rightarrow> bool" where
  "js_lt (Finite x) c = (x < c)"
| "js_lt NaN c = False"
| "js_lt PosInf c = False"
| "js_lt NegInf c = True"

fun js_gt :: "jsnum \<Rightarrow> rat \<Rightarrow> bool" where
  "js_gt (Finite x) c = (x > c)"
| "js_gt NaN c = False"
| "js_gt PosInf c = True"
| "js_gt NegInf c = False"

text \<open>The relation \<^verbatim>\<open>c <= x\<close> and \<^verbatim>\<open>x <= c\<close> of the language, used to state bounds.\<close>

fun js_ge :: "jsnum \<Rightarrow> rat \<Rightarrow> bool" where
  "js_ge (Finite x) c = (c \<le> x)"
| "js_ge NaN c = False"
| "js_ge PosInf c = True"
| "js_ge NegInf c = False"

fun js_le :: "jsnum \<Rightarrow> rat \<Rightarrow> bool" where
  "js_le (Finite x) c = (x \<le> c)"
| "js_le NaN c = False"
| "js_le PosInf c = False"
| "js_le NegInf c = True"

fun typeof :: "jsval \<Rightarrow> string" where
  "typeof JUndefined = ''undefined''"
| "typeof JNull = ''object''"
| "typeof (JBool b) = ''boolean''"
| "typeof (JNum n) = ''number''"
| "typeof (JStr s) = ''string''"
| "typeof (JArr xs) = ''object''"
| "typeof (JObj kvs) = ''object''"

text \<open>Truthiness, as \<^verbatim>\<open>!v\<close>, \<^verbatim>\<open>v && ...\<close> and \<^verbatim>\<open>v ? a : b\<close> read a value.\<close>

fun truthy :: "jsval \<Rightarrow> bool" where
  "truthy JUndefined = False"
| "truthy JNull = False"
| "truthy (JBool b) = b"
| "truthy (JNum n) = (n \<noteq> Finite 0 \<and> n \<noteq> NaN)"
| "truthy (JStr s) = (s \<noteq> [])"
| "truthy (JArr xs) = True"
| "truthy (JObj kvs) = True"

fun isArray :: "jsval \<Rightarrow> bool" where
  "isArray (JArr xs) = True"
| "isArray v = False"

text \<open>
  Reading a named property \<^verbatim>\<open>o.key\<close>: an object yields the value stored under the key
  and \<^verbatim>\<open>undefined\<close> when it has none; the keys the code reads are never array indices
  nor \<^verbatim>\<open>length\<close>, so an array yields \<^verbatim>\<open>undefined\<close>.
\<close>

fun get_prop :: "jsval \<Rightarrow> string \<Rightarrow> jsval" where
  "get_prop (JObj kvs) k = (case map_of kvs k of None \<Rightarrow> JUndefined | Some v \<Rightarrow> v)"
| "get_prop v k = JUndefined"

text \<open>Decimal digits of an array index, the property name of the element.\<close>

fun index_key :: "nat \<Rightarrow> string" where
  "index_key n =
     (if n < 10 then [char_of (48 + n)]
      else index_key (n div 10) @ [char_of (48 + n mod 10)])"

declare index_key.simps [simp del]

text \<open>
  The own enumerable properties an object spread \<^verbatim>\<open>{...v}\<close> copies: those of an
  object, the indexed elements of an array, the indexed characters of a string, and
  nothing for the other primitives.
\<close>

fun own_entries :: "jsval \<Rightarrow> (string \<times> jsval) list" where
  "own_entries (JObj kvs) = kvs"
| "own_entries (JArr xs) = zip (map index_key [0..<length xs]) xs"
| "own_entries (JStr s) = zip (map index_key [0..<length s]) (map (\<lambda>c. JStr [c]) s)"
| "own_entries v = []"

text \<open>
  The spread into an object literal \<^verbatim>\<open>{...defaults, ...source}\<close>: each property of the
  source overwrites the property of that name in place, or is appended after the
  existing ones. The list keeps the order of insertion; the engine
  enumerates array-index names before the others, which no lookup by name observes.
\<close>

definition assign :: "(string \<times> jsval) list \<Rightarrow> (string \<times> jsval) list \<Rightarrow> (string \<times> jsval) list" where
  "assign target source = fold (\<lambda>(k, v). AList.update k v) source target"

section \<open>Strings\<close>

text \<open>
  A string is a list of code units; the model covers the code units below 256. Of the
  white space and line terminators that \<^verbatim>\<open>String.prototype.trim\<close> strips, these are
  tab, line feed, vertical tab, form feed, carriage return, space and no-break space.
\<close>

definition is_whitespace :: "char \<Rightarrow> bool" where
  "is_whitespace c \<longleftrightarrow>
     c \<in> set [CHR 0x09, CHR 0x0A, CHR 0x0B, CHR 0x0C, CHR 0x0D, CHR 0x20, CHR 0xA0]"

definition trim :: "string \<Rightarrow> string" where
  "trim s = rev (dropWhile is_whitespace (rev (dropWhile is_whitespace s)))"

text \<open>\<^verbatim>\<open>Array.prototype.join\<close> on an array of strings.\<close>

fun join :: "string \<Rightarrow> string list \<Rightarrow> string" where
  "join sep [] = []"
| "join sep [x] = x"
| "join sep (x # y # ys) = x @ sep @ join sep (y # ys)"

text \<open>\<^verbatim>\<open>String.prototype.includes\<close>, which the tests' \<^verbatim>\<open>toThrow\<close> uses on messages.\<close>

fun starts_with :: "string \<Rightarrow> string \<Rightarrow> bool" where
  "starts_with [] s = True"
| "starts_with (p # ps) [] = False"
| "starts_with (p # ps) (c # cs) = (p = c \<and> starts_with ps cs)"

fun js_includes :: "string \<Rightarrow> string \<Rightarrow> bool" where
  "js_includes [] needle = (needle = [])"
| "js_includes (c # cs) needle = (starts_with needle (c # cs) \<or> js_includes cs needle)"

section \<open>Regular expressions\<close>

text \<open>
  The patterns of the validators use literals, character classes given by ranges,
  sequence, the optional group, bounded repetition and the iterations \<^verbatim>\<open>+\<close> and \<^verbatim>\<open>*\<close>.
  Every pattern is anchored at both ends and \<^verbatim>\<open>test\<close> only asks whether the whole
  string matches, which the derivative of the pattern along the string decides.
\<close>

datatype regex =
    Lit string
  | Class "(char \<times> char) list"
  | Seq regex regex
  | Alt regex regex
  | Star regex

definition in_class :: "char \<Rightarrow> (char \<times> char) list \<Rightarrow> bool" where
  "in_class c rs \<longleftrightarrow>
     list_ex (\<lambda>(lo, hi). (of_char lo :: nat) \<le> of_char c \<and> (of_char c :: nat) \<le> of_char hi) rs"

definition Opt :: "regex \<Rightarrow> regex" where
  "Opt r = Alt r (Lit [])"

definition Plus :: "regex \<Rightarrow> regex" where
  "Plus r = Seq r (Star r)"

fun Rep :: "nat \<Rightarrow> regex \<Rightarrow> regex" where
  "Rep 0 r = Lit []"
| "Rep (Suc n) r = Seq r (Rep n r)"

fun nullable :: "regex \<Rightarrow> bool" where
  "nullable (Lit s) = (s = [])"
| "nullable (Class rs) = False"
| "nullable (Seq r s) = (nullable r \<and> nullable s)"
| "nullable (Alt r s) = (nullable r \<or> nullable s)"
| "nullable (Star r) = True"

fun deriv :: "char \<Rightarrow> regex \<Rightarrow> regex" where
  "deriv c (Lit s) = (case s of [] \<Rightarrow> Class [] | d # ds \<Rightarrow> if c = d then Lit ds else Class [])"
| "deriv c (Class rs) = (if in_class c rs then Lit [] else Class [])"
| "deriv c (Seq r s) =
     (if nullable r then Alt (Seq (deriv c r) s) (deriv c s) else Seq (deriv c r) s)"
| "deriv c (Alt r s) = Alt (deriv c r) (deriv c s)"
| "deriv c (Star r) = Seq (deriv c r) (Star r)"

definition test :: "regex \<Rightarrow> string \<Rightarrow> bool" where
  "test r s = nullable (fold deriv s r)"

text \<open>The language of a pattern, against which the matcher is justified.\<close>

inductive_set star :: "string set \<Rightarrow> string set" for A :: "string set" where
  star_nil: "[] \<in> star A"
| star_app: "u \<in> A \<Longrightarrow> v \<in> star A \<Longrightarrow> u @ v \<in> star A"

fun lang :: "regex \<Rightarrow> string set" where
  "lang (Lit s) = {s}"
| "lang (Class rs) = {[c] | c. in_class c rs}"
| "lang (Seq r s) = {u @ v | u v. u \<in> lang r \<and> v \<in> lang s}"
| "lang (Alt r s) = lang r \<union> lang s"
| "lang (Star r) = star (lang r)"

section \<open>Errors and results\<close>

text \<open>
  The loader throws \<^verbatim>\<open>DeploymentConfigError(message, field?)\<close>; the resource-sizing
  validator throws a plain \<^verbatim>\<open>Error(message)\<close>; calling a value that is not a function
  makes the engine throw a \<^verbatim>\<open>TypeError\<close>. A function that may throw returns a sum, with
  the thrown error on the left.
\<close>

datatype error =
    DeploymentConfigError (message: string) (field: "string option")
  | Error (message: string)
  | TypeError (message: string)

definition and_then :: "'e + 'a \<Rightarrow> ('a \<Rightarrow> 'e + 'b) \<Rightarrow> 'e + 'b" where
  "and_then r f = (case r of Inl e \<Rightarrow> Inl e | Inr x \<Rightarrow> f x)"

definition throws :: "error + 'a \<Rightarrow> bool" where
  "throws r = (case r of Inl e \<Rightarrow> True | Inr x \<Rightarrow> False)"

text \<open>\<^verbatim>\<open>expect(...).toThrow(text)\<close>: the call throws and the message includes the text.\<close>

definition throws_with :: "error + 'a \<Rightarrow> string \<Rightarrow> bool" where
  "throws_with r text = (case r of Inl e \<Rightarrow> js_includes (message e) text | Inr x \<Rightarrow> False)"

section \<open>Field validators\<close>

definition validateStringField :: "jsval \<Rightarrow> string \<Rightarrow> bool \<Rightarrow> error + string" where
  "validateStringField val fieldName isRequired =
     (if val = JUndefined \<or> val = JNull then
        (if isRequired then
           Inl (DeploymentConfigError (''Missing required field: '' @ fieldName) (Some fieldName))
         else Inr [])
      else
        (case val of
           JStr s \<Rightarrow>
             (let trimmed = trim s in
              if isRequired \<and> trimmed = [] then
                Inl (DeploymentConfigError
                  (''Field '' @ [CHR 0x27] @ fieldName @ [CHR 0x27]
                    @ '' cannot be empty or contain only whitespace'') (Some fieldName))
              else Inr trimmed)
         | _ \<Rightarrow>
             Inl (DeploymentConfigError
               (''Field '' @ [CHR 0x27] @ fieldName @ [CHR 0x27]
                 @ '' must be a string, got '' @ typeof val) (Some fieldName))))"

definition validateBooleanField :: "jsval \<Rightarrow> string \<Rightarrow> bool \<Rightarrow> bool option \<Rightarrow> error + bool" where
  "validateBooleanField val fieldName isRequired defaultValue =
     (if val = JUndefined \<or> val = JNull then
        (if isRequired then
           Inl (DeploymentConfigError (''Missing required field: '' @ fieldName) (Some fieldName))
         else Inr (case defaultValue of None \<Rightarrow> False | Some d \<Rightarrow> d))
      else
        (case val of
           JBool b \<Rightarrow> Inr b
         | _ \<Rightarrow>
             Inl (DeploymentConfigError
               (''Field '' @ [CHR 0x27] @ fieldName @ [CHR 0x27]
                 @ '' must be a boolean, got '' @ typeof val) (Some fieldName))))"

text \<open>The character classes \<^verbatim>\<open>\d\<close>, \<^verbatim>\<open>[a-z0-9]\<close> and \<^verbatim>\<open>[a-f0-9]\<close>.\<close>

definition digit_class :: regex where
  "digit_class = Class [(CHR ''0'', CHR ''9'')]"

definition alnum_class :: regex where
  "alnum_class = Class [(CHR ''a'', CHR ''z''), (CHR ''0'', CHR ''9'')]"

definition hex_class :: regex where
  "hex_class = Class [(CHR ''a'', CHR ''f''), (CHR ''0'', CHR ''9'')]"

text \<open>\<^verbatim>\<open>/^\d{12}$/\<close>\<close>

definition accountId_pattern :: regex where
  "accountId_pattern = Rep 12 digit_class"

text \<open>\<^verbatim>\<open>/^[a-z0-9]+-[a-z0-9]+(?:-[a-z0-9]+)*$/\<close>\<close>

definition region_pattern :: regex where
  "region_pattern =
     Seq (Plus alnum_class) (Seq (Lit ''-'') (Seq (Plus alnum_class)
       (Star (Seq (Lit ''-'') (Plus alnum_class)))))"

text \<open>\<^verbatim>\<open>/^vpc-[a-f0-9]{8}(?:[a-f0-9]{9})?$/\<close>, and the same shape after \<^verbatim>\<open>sg-\<close> and \<^verbatim>\<open>subnet-\<close>.\<close>

definition vpcId_pattern :: regex where
  "vpcId_pattern = Seq (Lit ''vpc-'') (Seq (Rep 8 hex_class) (Opt (Rep 9 hex_class)))"

definition securityGroupId_pattern :: regex where
  "securityGroupId_pattern = Seq (Lit ''sg-'') (Seq (Rep 8 hex_class) (Opt (Rep 9 hex_class)))"

definition subnetId_pattern :: regex where
  "subnetId_pattern = Seq (Lit ''subnet-'') (Seq (Rep 8 hex_class) (Opt (Rep 9 hex_class)))"

definition validateAccountId :: "string \<Rightarrow> error + string" where
  "validateAccountId accountId =
     (if \<not> test accountId_pattern accountId then
        Inl (DeploymentConfigError
          (''Invalid AWS account ID format: '' @ [CHR 0x27] @ accountId @ [CHR 0x27]
            @ ''. Must be exactly 12 digits.'') (Some ''account.id''))
      else Inr accountId)"

definition validateRegion :: "string \<Rightarrow> error + string" where
  "validateRegion region =
     (if \<not> test region_pattern region then
        Inl (DeploymentConfigError
          (''Invalid AWS region format: '' @ [CHR 0x27] @ region @ [CHR 0x27]
            @ ''. Must follow pattern like '' @ [CHR 0x27] @ ''us-east-1'' @ [CHR 0x27]
            @ '', '' @ [CHR 0x27] @ ''eu-west-2'' @ [CHR 0x27] @ '', etc.'')
          (Some ''account.region''))
      else Inr region)"

definition validateVpcId :: "string \<Rightarrow> error + string" where
  "validateVpcId vpcId =
     (if \<not> test vpcId_pattern vpcId then
        Inl (DeploymentConfigError
          (''Invalid VPC ID format: '' @ [CHR 0x27] @ vpcId @ [CHR 0x27]
            @ ''. Must start with '' @ [CHR 0x27] @ ''vpc-'' @ [CHR 0x27]
            @ '' followed by 8 or 17 hexadecimal characters.'')
          (Some ''config.targetVpcId''))
      else Inr vpcId)"

definition validateSecurityGroupId :: "string \<Rightarrow> error + string" where
  "validateSecurityGroupId securityGroupId =
     (if \<not> test securityGroupId_pattern securityGroupId then
        Inl (DeploymentConfigError
          (''Invalid security group ID format: '' @ [CHR 0x27] @ securityGroupId @ [CHR 0x27]
            @ ''. Must start with '' @ [CHR 0x27] @ ''sg-'' @ [CHR 0x27]
            @ '' followed by 8 or 17 hexadecimal characters.'')
          (Some ''vpcConfig.securityGroupId''))
      else Inr securityGroupId)"

definition validateSubnetId :: "string \<Rightarrow> error + string" where
  "validateSubnetId subnetId =
     (if \<not> test subnetId_pattern subnetId then
        Inl (DeploymentConfigError
          (''Invalid Subnet ID format: '' @ [CHR 0x27] @ subnetId @ [CHR 0x27]
            @ ''. Must start with '' @ [CHR 0x27] @ ''subnet-'' @ [CHR 0x27]
            @ '' followed by 8 or 17 hexadecimal characters.'')
          (Some ''networkConfig.targetSubnets''))
      else Inr subnetId)"

section \<open>Configuration classes\<close>

text \<open>
  A record of named values, as an object literal with a spread builds it: every key of
  the spread value, \<^verbatim>\<open>__proto__\<close> too, becomes an own property of the literal.
\<close>

type_synonym props = "(string \<times> jsval) list"

text \<open>
  An instance of a configuration class: its own properties and, once the \<^verbatim>\<open>__proto__\<close>
  setter has run on it, the value that replaced its prototype.
\<close>

record config_instance =
  own_properties :: props
  replaced_prototype :: "jsval option"

text \<open>
  The assignment \<^verbatim>\<open>this[k] = v\<close> that \<^verbatim>\<open>Object.assign(this, config)\<close> performs for each
  property of \<^verbatim>\<open>config\<close>. The name \<^verbatim>\<open>__proto__\<close> reaches the setter inherited from
  \<^verbatim>\<open>Object.prototype\<close>, which replaces the prototype when the value is an object or
  \<^verbatim>\<open>null\<close> and does nothing otherwise; every other name becomes an own property. Every
  class passes a record built by a spread, which holds each name once, so the setter
  runs at most once on an instance.
\<close>

fun set_property :: "config_instance \<Rightarrow> string \<times> jsval \<Rightarrow> config_instance" where
  "set_property this (k, v) =
     (if k = ''__proto__'' then
        (if typeof v = ''object'' then this\<lparr>replaced_prototype := Some v\<rparr> else this)
      else this\<lparr>own_properties := AList.update k v (own_properties this)\<rparr>)"

definition BaseConfig :: "props \<Rightarrow> config_instance" where
  "BaseConfig config =
     fold (\<lambda>p this. set_property this p) config
       \<lparr>own_properties = [], replaced_prototype = None\<rparr>"

text \<open>
  Reading a configuration field \<^verbatim>\<open>instance.key\<close>: the own property of that name, or the
  one inherited from the value that replaced the prototype. The names that
  \<^verbatim>\<open>Object.prototype\<close> and the classes define are not configuration fields.
\<close>

definition read_property :: "config_instance \<Rightarrow> string \<Rightarrow> jsval" where
  "read_property this k =
     (case map_of (own_properties this) k of
        Some v \<Rightarrow> v
      | None \<Rightarrow> (case replaced_prototype this of None \<Rightarrow> JUndefined | Some p \<Rightarrow> get_prop p k))"

text \<open>
  Looking up a method of the class on an instance, as \<^verbatim>\<open>this.validateConfig\<close> does: the
  method is found unless an own property of that name shadows it or the prototype has
  been replaced. No value of the model is a function.
\<close>

definition finds_method :: "config_instance \<Rightarrow> string \<Rightarrow> bool" where
  "finds_method this name \<longleftrightarrow>
     map_of (own_properties this) name = None \<and> replaced_prototype this = None"

definition NetworkConfig :: "jsval \<Rightarrow> config_instance" where
  "NetworkConfig config =
     BaseConfig (assign
       [(''VPC_NAME'', JStr ''tile-server-vpc''),
        (''SECURITY_GROUP_NAME'', JStr ''tile-server-security-group'')]
       (own_entries config))"

definition TestImageryConfig :: "jsval \<Rightarrow> config_instance" where
  "TestImageryConfig config =
     BaseConfig (assign
       [(''S3_IMAGE_BUCKET_PREFIX'', JStr ''ts-test-imagery''),
        (''S3_TEST_IMAGES_PATH'', JStr ''../test/data/integ/'')]
       (own_entries config))"

definition TestConfig :: "jsval \<Rightarrow> config_instance" where
  "TestConfig config =
     BaseConfig (assign
       [(''BUILD_FROM_SOURCE'', JBool False),
        (''TEST_CONTAINER_BUILD_PATH'', JStr ''../''),
        (''TEST_CONTAINER_BUILD_TARGET'', JStr ''integ''),
        (''TEST_CONTAINER_DOCKERFILE'', JStr ''docker/Dockerfile.integ''),
        (''TEST_CONTAINER_URI'', JStr ''awsosml/osml-tile-server-test:latest'')]
       (own_entries config))"

subsection \<open>DataplaneConfig and its resource-sizing validator\<close>

definition dataplane_defaults :: props where
  "dataplane_defaults =
     [(''BUILD_FROM_SOURCE'', JBool False),
      (''CONTAINER_BUILD_PATH'', JStr ''../''),
      (''CONTAINER_BUILD_TARGET'', JStr ''tile_server''),
      (''CONTAINER_DOCKERFILE'', JStr ''docker/Dockerfile.tile_server''),
      (''CONTAINER_URI'', JStr ''awsosml/osml-tile-server:latest''),
      (''CW_LOGGROUP_NAME'', JStr ''TSService''),
      (''CW_METRICS_NAMESPACE'', JStr ''OSML''),
      (''DDB_JOB_TABLE'', JStr ''TSJobTable''),
      (''DDB_TTL_ATTRIBUTE'', JStr ''expire_time''),
      (''EFS_MOUNT_NAME'', JStr ''ts-efs-volume''),
      (''ECS_CONTAINER_CPU'', JNum (Finite 8192)),
      (''ECS_CONTAINER_MEMORY'', JNum (Finite 16384)),
      (''ECS_CONTAINER_NAME'', JStr ''TSContainer''),
      (''ECS_CONTAINER_PORT'', JNum (Finite 8080)),
      (''ECS_CLUSTER_NAME'', JStr ''TSCluster''),
      (''ECS_TASK_CPU'', JNum (Finite 8192)),
      (''ECS_TASK_MEMORY'', JNum (Finite 16384)),
      (''SQS_JOB_QUEUE'', JStr ''TSJobQueue'')]"

text \<open>\<^verbatim>\<open>typeof v === "number" ? v : 0\<close>\<close>

definition number_or_zero :: "jsval \<Rightarrow> jsnum" where
  "number_or_zero v = (case v of JNum n \<Rightarrow> n | _ \<Rightarrow> Finite 0)"

definition cpu_min_msg :: string where
  "cpu_min_msg = ''ECS_TASK_CPU must be at least 256 (0.25 vCPU)''"

definition cpu_max_msg :: string where
  "cpu_max_msg = ''ECS_TASK_CPU must be at most 16384 (16 vCPU)''"

definition mem_min_msg :: string where
  "mem_min_msg = ''ECS_TASK_MEMORY must be at least 512 MiB''"

definition mem_max_msg :: string where
  "mem_max_msg = ''ECS_TASK_MEMORY must be at most 122880 MiB (120 GB)''"

text \<open>The violations \<^verbatim>\<open>validateConfig\<close> pushes onto \<^verbatim>\<open>errors\<close>, in the order of the pushes.\<close>

definition sizing_errors :: "props \<Rightarrow> string list" where
  "sizing_errors config =
     (let ecsTaskCpu = number_or_zero (get_prop (JObj config) ''ECS_TASK_CPU'');
          ecsTaskMemory = number_or_zero (get_prop (JObj config) ''ECS_TASK_MEMORY'')
      in (if js_lt ecsTaskCpu 256 then [cpu_min_msg] else [])
       @ (if js_gt ecsTaskCpu 16384 then [cpu_max_msg] else [])
       @ (if js_lt ecsTaskMemory 512 then [mem_min_msg] else [])
       @ (if js_gt ecsTaskMemory 122880 then [mem_max_msg] else []))"

definition validateConfig :: "props \<Rightarrow> error + unit" where
  "validateConfig config =
     (let errors = sizing_errors config in
      if length errors > 0 then
        Inl (Error (''Configuration validation failed:'' @ [CHR 0x0A] @ join [CHR 0x0A] errors))
      else Inr ())"

text \<open>
  The constructor: \<^verbatim>\<open>super(mergedConfig)\<close>, then \<^verbatim>\<open>this.validateConfig(mergedConfig)\<close>,
  a call through the instance that the assignment has just filled.
\<close>

definition DataplaneConfig :: "jsval \<Rightarrow> error + config_instance" where
  "DataplaneConfig config =
     (let mergedConfig = assign dataplane_defaults (own_entries config);
          this = BaseConfig mergedConfig
      in if \<not> finds_method this ''validateConfig'' then
           Inl (TypeError ''this.validateConfig is not a function'')
         else and_then (validateConfig mergedConfig) (\<lambda>_. Inr this))"

section \<open>The deployment configuration loader\<close>

record Account =
  id' :: string
  region :: string
  prodLike :: bool
  isAdc :: bool

record DeploymentConfig =
  projectName :: string
  account :: Account
  networkConfig :: "config_instance option"
  dataplaneConfig :: "jsval option"
  deployIntegrationTests :: bool
  testImageryConfig :: "config_instance option"
  testConfig :: "config_instance option"

text \<open>Validate project name.\<close>

definition parse_projectName :: "jsval \<Rightarrow> error + string" where
  "parse_projectName config =
     and_then (validateStringField (get_prop config ''projectName'') ''projectName'' True)
       (\<lambda>projectName.
          if length projectName = 0 then
            Inl (DeploymentConfigError ''projectName cannot be empty'' None)
          else Inr projectName)"

text \<open>Validate account section.\<close>

definition parse_account :: "jsval \<Rightarrow> error + Account" where
  "parse_account config =
     (if \<not> truthy (get_prop config ''account'') \<or> typeof (get_prop config ''account'') \<noteq> ''object''
      then Inl (DeploymentConfigError ''Missing or invalid account section in deployment.json''
                  (Some ''account''))
      else
        (let accountConfig = get_prop config ''account'' in
         and_then (and_then (validateStringField (get_prop accountConfig ''id'') ''account.id'' True)
                     validateAccountId) (\<lambda>accountId.
         and_then (and_then (validateStringField (get_prop accountConfig ''region'') ''account.region'' True)
                     validateRegion) (\<lambda>region.
         and_then (validateBooleanField (get_prop accountConfig ''prodLike'') ''account.prodLike'' True None)
           (\<lambda>prodLike.
         and_then (validateBooleanField (get_prop accountConfig ''isAdc'') ''account.isAdc'' False (Some False))
           (\<lambda>isAdc.
         Inr \<lparr>id' = accountId, region = region, prodLike = prodLike, isAdc = isAdc\<rparr>))))))"

text \<open>The loop over \<^verbatim>\<open>TARGET_SUBNETS\<close>, which stops at the first element that is rejected.\<close>

fun validate_subnets :: "jsval list \<Rightarrow> error + unit" where
  "validate_subnets [] = Inr ()"
| "validate_subnets (subnetId # rest) =
     and_then (and_then (validateStringField subnetId ''networkConfig.TARGET_SUBNETS[]'' True)
                 validateSubnetId)
       (\<lambda>_. validate_subnets rest)"

definition array_length :: "jsval \<Rightarrow> nat" where
  "array_length v = (case v of JArr xs \<Rightarrow> length xs | _ \<Rightarrow> 0)"

definition array_elements :: "jsval \<Rightarrow> jsval list" where
  "array_elements v = (case v of JArr xs \<Rightarrow> xs | _ \<Rightarrow> [])"

definition subnets_required_msg :: string where
  "subnets_required_msg =
     ''When VPC_ID is provided, TARGET_SUBNETS must also be specified with at least one subnet ID''"

text \<open>Parse optional Network configuration.\<close>

definition parse_networkConfig :: "jsval \<Rightarrow> error + config_instance option" where
  "parse_networkConfig config =
     (if truthy (get_prop config ''networkConfig'')
         \<and> typeof (get_prop config ''networkConfig'') = ''object''
         \<and> get_prop config ''networkConfig'' \<noteq> JNull
      then
        (let networkConfigData = get_prop config ''networkConfig'';
             VPC_ID = get_prop networkConfigData ''VPC_ID'';
             TARGET_SUBNETS = get_prop networkConfigData ''TARGET_SUBNETS'';
             SECURITY_GROUP_ID = get_prop networkConfigData ''SECURITY_GROUP_ID''
         in
         and_then
           (if VPC_ID \<noteq> JUndefined then
              and_then (and_then (validateStringField VPC_ID ''networkConfig.VPC_ID'' True)
                          validateVpcId) (\<lambda>_. Inr ())
            else Inr ()) (\<lambda>_.
         and_then
           (if TARGET_SUBNETS \<noteq> JUndefined then
              (if \<not> isArray TARGET_SUBNETS then
                 Inl (DeploymentConfigError
                   (''Field '' @ [CHR 0x27] @ ''networkConfig.TARGET_SUBNETS'' @ [CHR 0x27]
                     @ '' must be an array'') (Some ''networkConfig.TARGET_SUBNETS''))
               else validate_subnets (array_elements TARGET_SUBNETS))
            else Inr ()) (\<lambda>_.
         and_then
           (if SECURITY_GROUP_ID \<noteq> JUndefined then
              and_then (and_then (validateStringField SECURITY_GROUP_ID
                                    ''networkConfig.SECURITY_GROUP_ID'' True)
                          validateSecurityGroupId) (\<lambda>_. Inr ())
            else Inr ()) (\<lambda>_.
         if truthy VPC_ID
            \<and> (\<not> truthy TARGET_SUBNETS \<or> \<not> isArray TARGET_SUBNETS
                \<or> array_length TARGET_SUBNETS = 0)
         then Inl (DeploymentConfigError subnets_required_msg (Some ''networkConfig.TARGET_SUBNETS''))
         else Inr (Some (NetworkConfig networkConfigData))))))
      else Inr None)"

text \<open>Parse optional Dataplane configuration.\<close>

definition parse_dataplaneConfig :: "jsval \<Rightarrow> jsval option" where
  "parse_dataplaneConfig config =
     (if truthy (get_prop config ''dataplaneConfig'')
         \<and> typeof (get_prop config ''dataplaneConfig'') = ''object''
      then Some (get_prop config ''dataplaneConfig'')
      else None)"

text \<open>Parse optional test imagery configuration (only if deployIntegrationTests is true).\<close>

definition parse_testImageryConfig :: "jsval \<Rightarrow> bool \<Rightarrow> config_instance option" where
  "parse_testImageryConfig config enabled =
     (if enabled then
        (if truthy (get_prop config ''testImageryConfig'')
            \<and> typeof (get_prop config ''testImageryConfig'') = ''object''
         then Some (TestImageryConfig (get_prop config ''testImageryConfig''))
         else None)
      else None)"

text \<open>Parse optional test configuration (only if deployIntegrationTests is true).\<close>

definition parse_testConfig :: "jsval \<Rightarrow> bool \<Rightarrow> config_instance option" where
  "parse_testConfig config enabled =
     (if enabled then
        (if truthy (get_prop config ''testConfig'')
            \<and> typeof (get_prop config ''testConfig'') = ''object''
         then Some (TestConfig (get_prop config ''testConfig''))
         else None)
      else None)"

text \<open>
  The part of \<^verbatim>\<open>loadDeploymentConfig\<close> after \<^verbatim>\<open>JSON.parse\<close>: from the parsed value to the
  validated configuration, or to the first error thrown.
\<close>

definition validate_parsed :: "jsval \<Rightarrow> error + DeploymentConfig" where
  "validate_parsed parsed =
     (if \<not> truthy parsed \<or> typeof parsed \<noteq> ''object'' then
        Inl (DeploymentConfigError ''deployment.json must contain a valid JSON object'' None)
      else
        (let config = parsed in
         and_then (parse_projectName config) (\<lambda>projectName.
         and_then (parse_account config) (\<lambda>account.
         and_then (parse_networkConfig config) (\<lambda>networkConfig.
         and_then (validateBooleanField (get_prop config ''deployIntegrationTests'')
                     ''deployIntegrationTests'' False (Some True)) (\<lambda>deployIntegrationTests.
         Inr \<lparr>projectName = projectName,
              account = account,
              networkConfig = networkConfig,
              dataplaneConfig = parse_dataplaneConfig config,
              deployIntegrationTests = deployIntegrationTests,
              testImageryConfig = parse_testImageryConfig config deployIntegrationTests,
              testConfig = parse_testConfig config deployIntegrationTests\<rparr>))))))"

subsection \<open>The file and the console\<close>

text \<open>
  What the loader reads and writes outside itself: the file \<^verbatim>\<open>deployment.json\<close> beside the
  module, which is missing, cannot be read (with the message of the I/O error) or has
  a content, and the lines written to the console. \<^verbatim>\<open>JSON.parse\<close> is a function of the
  text that returns the parsed value or the message of its \<^verbatim>\<open>SyntaxError\<close>; the path of
  the file is fixed by the location of the module.
\<close>

datatype file_state = Missing | Unreadable string | Content string

record world =
  deployment_json :: file_state
  console :: "string list"

definition loadDeploymentConfig ::
  "(string \<Rightarrow> string + jsval) \<Rightarrow> string \<Rightarrow> world \<Rightarrow> (error + DeploymentConfig) \<times> world" where
  "loadDeploymentConfig JSON_parse deploymentPath w =
     (case deployment_json w of
        Missing \<Rightarrow>
          (Inl (DeploymentConfigError
             (''Missing deployment.json file at '' @ deploymentPath
               @ ''. Please create it by copying deployment.json.example'') None), w)
      | Unreadable msg \<Rightarrow>
          (Inl (DeploymentConfigError (''Failed to read deployment.json: '' @ msg) None), w)
      | Content rawContent \<Rightarrow>
          (case JSON_parse rawContent of
             Inl msg \<Rightarrow>
               (Inl (DeploymentConfigError (''Invalid JSON format in deployment.json: '' @ msg) None), w)
           | Inr parsed \<Rightarrow>
               (case validate_parsed parsed of
                  Inl e \<Rightarrow> (Inl e, w)
                | Inr validatedConfig \<Rightarrow>
                    (Inr validatedConfig,
                     w\<lparr>console := console w @
                       [''Using environment from deployment.json: projectName=''
                          @ projectName validatedConfig @ '', region=''
                          @ region (account validatedConfig)]\<rparr>))))"

section \<open>The shapes and conditions the specification names\<close>

text \<open>
  The predicates below follow the words of the specification, not the code; the
  theorems relate them to the validators and to the loader.
\<close>

definition is_digit :: "char \<Rightarrow> bool" where
  "is_digit c \<longleftrightarrow> c \<in> set ''0123456789''"

definition is_lower_hex :: "char \<Rightarrow> bool" where
  "is_lower_hex c \<longleftrightarrow> c \<in> set ''0123456789abcdef''"

definition is_lower_alnum :: "char \<Rightarrow> bool" where
  "is_lower_alnum c \<longleftrightarrow> c \<in> set ''abcdefghijklmnopqrstuvwxyz0123456789''"

text \<open>Exactly twelve decimal digits.\<close>

definition account_id_shape :: "string \<Rightarrow> bool" where
  "account_id_shape s \<longleftrightarrow> length s = 12 \<and> list_all is_digit s"

text \<open>The literal prefix followed by exactly 8 or exactly 17 lowercase hexadecimal characters.\<close>

definition identifier_shape :: "string \<Rightarrow> string \<Rightarrow> bool" where
  "identifier_shape prefix s \<longleftrightarrow>
     take (length prefix) s = prefix
     \<and> (length (drop (length prefix) s) = 8 \<or> length (drop (length prefix) s) = 17)
     \<and> list_all is_lower_hex (drop (length prefix) s)"

text \<open>The segments of a string between the occurrences of a separator character.\<close>

fun split_on :: "char \<Rightarrow> string \<Rightarrow> string list" where
  "split_on sep [] = [[]]"
| "split_on sep (c # cs) =
     (if c = sep then [] # split_on sep cs
      else (c # hd (split_on sep cs)) # tl (split_on sep cs))"

text \<open>A lowercase-alphanumeric segment: one or more characters of \<open>a\<close> to \<open>z\<close> and \<open>0\<close> to \<open>9\<close>.\<close>

definition word :: "string \<Rightarrow> bool" where
  "word w \<longleftrightarrow> w \<noteq> [] \<and> list_all is_lower_alnum w"

text \<open>At least \<open>n\<close> segments separated by hyphens, each a lowercase-alphanumeric segment.\<close>

definition hyphen_segments :: "nat \<Rightarrow> string \<Rightarrow> bool" where
  "hyphen_segments n s \<longleftrightarrow>
     n \<le> length (split_on CHR ''-'' s) \<and> list_all word (split_on CHR ''-'' s)"

text \<open>A value that is not an object: \<^verbatim>\<open>undefined\<close>, \<^verbatim>\<open>null\<close>, a boolean, a number or a string.\<close>

definition not_an_object :: "jsval \<Rightarrow> bool" where
  "not_an_object v \<longleftrightarrow> typeof v \<noteq> ''object'' \<or> v = JNull"

definition is_number :: "jsval \<Rightarrow> bool" where
  "is_number v \<longleftrightarrow> typeof v = ''number''"

text \<open>
  The inclusive resource-sizing bounds, and the violation lines in the fixed order
  compute then memory.
\<close>

definition sizing_in_bounds :: "jsnum \<Rightarrow> jsnum \<Rightarrow> bool" where
  "sizing_in_bounds cpu mem \<longleftrightarrow>
     js_ge cpu 256 \<and> js_le cpu 16384 \<and> js_ge mem 512 \<and> js_le mem 122880"

definition expected_violations :: "jsnum \<Rightarrow> jsnum \<Rightarrow> string list" where
  "expected_violations cpu mem =
     (if js_ge cpu 256 then [] else [cpu_min_msg])
   @ (if js_le cpu 16384 then [] else [cpu_max_msg])
   @ (if js_ge mem 512 then [] else [mem_min_msg])
   @ (if js_le mem 122880 then [] else [mem_max_msg])"

text \<open>
  The merged record leaves the class method \<^verbatim>\<open>validateConfig\<close> reachable from the
  instance: it has no field of that name and no \<^verbatim>\<open>__proto__\<close> field holding an object or
  \<^verbatim>\<open>null\<close>.
\<close>

definition method_intact :: "props \<Rightarrow> bool" where
  "method_intact m \<longleftrightarrow>
     list_all (\<lambda>(k, v). k \<noteq> ''validateConfig'' \<and> \<not> (k = ''__proto__'' \<and> typeof v = ''object'')) m"

text \<open>The record \<^verbatim>\<open>DataplaneConfig\<close> validates: the defaults overridden by the caller's fields.\<close>

definition merged_dataplane :: "jsval \<Rightarrow> props" where
  "merged_dataplane config = assign dataplane_defaults (own_entries config)"

text \<open>
  A file that parses to the given value, seen through the whole loader: the result of
  \<^verbatim>\<open>loadDeploymentConfig\<close> when \<^verbatim>\<open>deployment.json\<close> holds a text that \<^verbatim>\<open>JSON.parse\<close>
  turns into that value.
\<close>

definition load_parsed :: "jsval \<Rightarrow> error + DeploymentConfig" where
  "load_parsed parsed =
     fst (loadDeploymentConfig (\<lambda>text. Inr parsed) [] \<lparr>deployment_json = Content [], console = []\<rparr>)"

text \<open>
  A supplied identifier that passes its validation: a string whose trimmed value has the
  identifier shape.
\<close>

definition valid_identifier_value :: "string \<Rightarrow> jsval \<Rightarrow> bool" where
  "valid_identifier_value prefix v \<longleftrightarrow>
     (case v of JStr s \<Rightarrow> identifier_shape prefix (trim s) | _ \<Rightarrow> False)"

text \<open>The property of the network configuration held by a loaded result, if any.\<close>

definition stored_network_field :: "error + DeploymentConfig \<Rightarrow> string \<Rightarrow> jsval" where
  "stored_network_field r k =
     (case r of
        Inl e \<Rightarrow> JUndefined
      | Inr c \<Rightarrow> (case networkConfig c of None \<Rightarrow> JUndefined | Some nc \<Rightarrow> read_property nc k))"

text \<open>
  The configurations of the repository's loader tests: the minimal valid file, and the
  same file with one more top-level section.
\<close>

definition minimal_file :: "(string \<times> jsval) list" where
  "minimal_file =
     [(''projectName'', JStr ''test-project''),
      (''account'', JObj [(''id'', JStr ''123456789012''),
                          (''region'', JStr ''us-west-2''),
                          (''prodLike'', JBool False)])]"

definition with_section :: "string \<Rightarrow> jsval \<Rightarrow> jsval" where
  "with_section k v = JObj (minimal_file @ [(k, v)])"

section \<open>Characters and the matcher\<close>

lemma char_eq_nat: "c = d \<longleftrightarrow> (of_char c :: nat) = of_char d"
  by simp

lemma hex_class_iff:
  "in_class c [(CHR ''a'', CHR ''f''), (CHR ''0'', CHR ''9'')] \<longleftrightarrow> is_lower_hex c"
  unfolding is_lower_hex_def
  by (simp add: in_class_def char_eq_nat [of c]; arith)

lemma digit_class_iff:
  "in_class c [(CHR ''0'', CHR ''9'')] \<longleftrightarrow> is_digit c"
  unfolding is_digit_def
  by (simp add: in_class_def char_eq_nat [of c]; arith)

lemma alnum_class_iff:
  "in_class c [(CHR ''a'', CHR ''z''), (CHR ''0'', CHR ''9'')] \<longleftrightarrow> is_lower_alnum c"
  unfolding is_lower_alnum_def
  by (simp add: in_class_def char_eq_nat [of c]; arith)

lemma in_class_Nil [simp]: "\<not> in_class c []"
  by (simp add: in_class_def)

lemma star_cons:
  "c # s \<in> star A \<longleftrightarrow> (\<exists>u v. s = u @ v \<and> c # u \<in> A \<and> v \<in> star A)"
proof
  assume "c # s \<in> star A"
  then show "\<exists>u v. s = u @ v \<and> c # u \<in> A \<and> v \<in> star A"
  proof (induction "c # s" rule: star.induct)
    case (star_app u v)
    show ?case
    proof (cases u)
      case Nil
      with star_app show ?thesis by simp
    next
      case (Cons d u')
      with star_app have "s = u' @ v" "c # u' \<in> A" by auto
      with star_app show ?thesis by blast
    qed
  qed
next
  assume "\<exists>u v. s = u @ v \<and> c # u \<in> A \<and> v \<in> star A"
  then obtain u v where "s = u @ v" "c # u \<in> A" "v \<in> star A" by blast
  then show "c # s \<in> star A"
    using star.star_app [of "c # u" A v] by simp
qed

lemma nullable_lang: "nullable r \<longleftrightarrow> [] \<in> lang r"
  by (induction r) (auto intro: star.star_nil)

lemma lang_Class_Nil: "lang (Class []) = {}"
  by simp

lemma deriv_lang: "s \<in> lang (deriv c r) \<longleftrightarrow> c # s \<in> lang r"
proof (induction r arbitrary: s)
  case (Lit x)
  then show ?case by (cases x) (auto simp: lang_Class_Nil)
next
  case (Class x)
  then show ?case by (auto simp: lang_Class_Nil)
next
  case (Seq r1 r2)
  then show ?case
    by (auto simp: nullable_lang Cons_eq_append_conv)
next
  case (Alt r1 r2)
  then show ?case by auto
next
  case (Star r)
  then show ?case by (auto simp: star_cons)
qed

lemma test_lang: "test r s \<longleftrightarrow> s \<in> lang r"
  unfolding test_def
  by (induction s arbitrary: r) (simp_all add: nullable_lang deriv_lang)

lemma conc_Class:
  "{u @ v | u v. u \<in> lang (Class rs) \<and> v \<in> B} = {c # v | c v. in_class c rs \<and> v \<in> B}"
proof -
  have "\<exists>u va. c # v = u @ va \<and> (\<exists>d. u = [d] \<and> in_class d rs) \<and> va \<in> B"
    if "in_class c rs" "v \<in> B" for c v
    using that by (intro exI [of _ "[c]"] exI [of _ v]) simp
  then show ?thesis by auto
qed

lemma lang_Rep_Class:
  "lang (Rep n (Class rs)) = {s. length s = n \<and> (\<forall>c \<in> set s. in_class c rs)}"
proof (induction n)
  case 0
  then show ?case by auto
next
  case (Suc n)
  show ?case
  proof (rule set_eqI)
    fix s
    show "s \<in> lang (Rep (Suc n) (Class rs)) \<longleftrightarrow>
          s \<in> {s. length s = Suc n \<and> (\<forall>c \<in> set s. in_class c rs)}"
      unfolding Rep.simps lang.simps(3) conc_Class Suc by (cases s) auto
  qed
qed

lemma star_Class:
  "star (lang (Class rs)) = {s. \<forall>c \<in> set s. in_class c rs}"
proof (rule set_eqI)
  fix s
  show "s \<in> star (lang (Class rs)) \<longleftrightarrow> s \<in> {s. \<forall>c \<in> set s. in_class c rs}"
  proof
    assume "s \<in> star (lang (Class rs))"
    then show "s \<in> {s. \<forall>c \<in> set s. in_class c rs}"
      by (induction rule: star.induct) auto
  next
    assume "s \<in> {s. \<forall>c \<in> set s. in_class c rs}"
    then have "\<forall>c \<in> set s. in_class c rs" by simp
    then show "s \<in> star (lang (Class rs))"
    proof (induction s)
      case Nil
      show ?case by (rule star.star_nil)
    next
      case (Cons c s)
      then have "[c] \<in> lang (Class rs)" "s \<in> star (lang (Class rs))" by auto
      then show ?case using star.star_app [of "[c]" "lang (Class rs)" s] by simp
    qed
  qed
qed

lemma lang_Plus_Class:
  "lang (Plus (Class rs)) = {s. s \<noteq> [] \<and> (\<forall>c \<in> set s. in_class c rs)}"
proof (rule set_eqI)
  fix s
  show "s \<in> lang (Plus (Class rs)) \<longleftrightarrow> s \<in> {s. s \<noteq> [] \<and> (\<forall>c \<in> set s. in_class c rs)}"
    unfolding Plus_def lang.simps(3) lang.simps(5) conc_Class star_Class
    by (cases s) auto
qed

lemma lang_Opt: "lang (Opt r) = lang r \<union> {[]}"
  by (simp add: Opt_def)

lemma lang_identifier:
  "s \<in> lang (Seq (Lit p) (Seq (Rep 8 (Class rs)) (Opt (Rep 9 (Class rs))))) \<longleftrightarrow>
   (\<exists>t. s = p @ t \<and> (length t = 8 \<or> length t = 17) \<and> (\<forall>c \<in> set t. in_class c rs))"
  (is "?L \<longleftrightarrow> ?R")
proof
  assume ?L
  then obtain u v where "s = p @ u @ v" "u \<in> lang (Rep 8 (Class rs))"
      "v \<in> lang (Opt (Rep 9 (Class rs)))"
    by auto
  then show ?R
    unfolding lang_Opt lang_Rep_Class by auto
next
  assume ?R
  then obtain t where t: "s = p @ t" "length t = 8 \<or> length t = 17" "\<forall>c \<in> set t. in_class c rs"
    by blast
  define u where "u = take 8 t"
  define v where "v = drop 8 t"
  have "t = u @ v" by (simp add: u_def v_def)
  moreover have "u \<in> lang (Rep 8 (Class rs))"
    unfolding lang_Rep_Class using t by (auto simp: u_def dest: in_set_takeD)
  moreover have "v \<in> lang (Opt (Rep 9 (Class rs)))"
    unfolding lang_Opt lang_Rep_Class using t by (auto simp: v_def dest: in_set_dropD)
  ultimately show ?L using t(1) by auto
qed

lemma starts_with_append: "starts_with s (s @ b)"
  by (induction s) auto

lemma js_includes_self: "js_includes (s @ b) s"
proof (cases "s @ b")
  case Nil
  then show ?thesis by simp
next
  case (Cons c cs)
  have "starts_with s (s @ b)" by (rule starts_with_append)
  then have "starts_with s (c # cs)" unfolding Cons .
  then show ?thesis unfolding Cons by simp
qed

lemma js_includes_middle: "js_includes (a @ s @ b) s"
  by (induction a) (auto simp: js_includes_self)

lemma identifier_shape_iff:
  "identifier_shape p s \<longleftrightarrow>
   (\<exists>t. s = p @ t \<and> (length t = 8 \<or> length t = 17) \<and> (\<forall>c \<in> set t. is_lower_hex c))"
  (is "?L \<longleftrightarrow> ?R")
proof
  assume ?L
  then have "s = p @ drop (length p) s"
    unfolding identifier_shape_def by (metis append_take_drop_id)
  with \<open>?L\<close> show ?R
    unfolding identifier_shape_def list_all_iff by blast
next
  assume ?R
  then show ?L
    unfolding identifier_shape_def list_all_iff by auto
qed

lemma test_identifier:
  "test (Seq (Lit p) (Seq (Rep 8 hex_class) (Opt (Rep 9 hex_class)))) s \<longleftrightarrow> identifier_shape p s"
  unfolding test_lang hex_class_def lang_identifier identifier_shape_iff hex_class_iff ..

lemma validateVpcId_accepts: "validateVpcId s = Inr s \<longleftrightarrow> identifier_shape ''vpc-'' s"
  by (simp add: validateVpcId_def vpcId_pattern_def test_identifier)

lemma validateVpcId_rejects: "\<not> identifier_shape ''vpc-'' s \<Longrightarrow> throws_with (validateVpcId s) s"
  using js_includes_middle [of "''Invalid VPC ID format: '' @ [CHR 0x27]" s]
  by (simp add: validateVpcId_def vpcId_pattern_def test_identifier throws_with_def)

lemma validateSecurityGroupId_accepts:
  "validateSecurityGroupId s = Inr s \<longleftrightarrow> identifier_shape ''sg-'' s"
  by (simp add: validateSecurityGroupId_def securityGroupId_pattern_def test_identifier)

lemma validateSecurityGroupId_rejects:
  "\<not> identifier_shape ''sg-'' s \<Longrightarrow> throws_with (validateSecurityGroupId s) s"
  using js_includes_middle [of "''Invalid security group ID format: '' @ [CHR 0x27]" s]
  by (simp add: validateSecurityGroupId_def securityGroupId_pattern_def test_identifier throws_with_def)

lemma validateSubnetId_accepts:
  "validateSubnetId s = Inr s \<longleftrightarrow> identifier_shape ''subnet-'' s"
  by (simp add: validateSubnetId_def subnetId_pattern_def test_identifier)

lemma validateSubnetId_rejects:
  "\<not> identifier_shape ''subnet-'' s \<Longrightarrow> throws_with (validateSubnetId s) s"
  using js_includes_middle [of "''Invalid Subnet ID format: '' @ [CHR 0x27]" s]
  by (simp add: validateSubnetId_def subnetId_pattern_def test_identifier throws_with_def)

text \<open>
  C3. For every string, each of the VPC, security-group and subnet identifier validators
  accepts it (returns it) exactly when it is the validator's prefix followed by 8 or by
  17 lowercase hexadecimal characters; every other string is rejected with an error
  whose message quotes the offending value.
\<close>

theorem identifier_validators_accept_iff_shape:
  "(validateVpcId s = Inr s \<longleftrightarrow> identifier_shape ''vpc-'' s)
   \<and> (validateSecurityGroupId s = Inr s \<longleftrightarrow> identifier_shape ''sg-'' s)
   \<and> (validateSubnetId s = Inr s \<longleftrightarrow> identifier_shape ''subnet-'' s)
   \<and> (\<not> identifier_shape ''vpc-'' s \<longrightarrow> throws_with (validateVpcId s) s)
   \<and> (\<not> identifier_shape ''sg-'' s \<longrightarrow> throws_with (validateSecurityGroupId s) s)
   \<and> (\<not> identifier_shape ''subnet-'' s \<longrightarrow> throws_with (validateSubnetId s) s)"
  using validateVpcId_accepts validateVpcId_rejects
    validateSecurityGroupId_accepts validateSecurityGroupId_rejects
    validateSubnetId_accepts validateSubnetId_rejects
  by blast

theorem identifier_validators_witness:
  "validateVpcId ''vpc-12345678'' = Inr ''vpc-12345678''
   \<and> validateSecurityGroupId ''sg-0123456789abcdef0'' = Inr ''sg-0123456789abcdef0''
   \<and> validateSubnetId ''subnet-12345678'' = Inr ''subnet-12345678''
   \<and> \<not> identifier_shape ''vpc-'' ''vpc-123456789''
   \<and> throws_with (validateVpcId ''vpc-123456789'') ''vpc-123456789''
   \<and> \<not> identifier_shape ''sg-'' ''sg-1234ABCD''
   \<and> throws_with (validateSecurityGroupId ''sg-1234ABCD'') ''sg-1234ABCD''
   \<and> \<not> identifier_shape ''subnet-'' ''subnet-0123456789abcdef''
   \<and> throws_with (validateSubnetId ''subnet-0123456789abcdef'') ''subnet-0123456789abcdef''"
proof -
  have a: "identifier_shape ''vpc-'' ''vpc-12345678''"
    "identifier_shape ''sg-'' ''sg-0123456789abcdef0''"
    "identifier_shape ''subnet-'' ''subnet-12345678''"
    by (simp_all add: identifier_shape_def is_lower_hex_def)
  have r: "\<not> identifier_shape ''vpc-'' ''vpc-123456789''"
    "\<not> identifier_shape ''sg-'' ''sg-1234ABCD''"
    "\<not> identifier_shape ''subnet-'' ''subnet-0123456789abcdef''"
    by (simp_all add: identifier_shape_def is_lower_hex_def)
  note T = identifier_validators_accept_iff_shape
  have "validateVpcId ''vpc-12345678'' = Inr ''vpc-12345678''"
    using T [of "''vpc-12345678''", THEN conjunct1] a(1) by (rule iffD2)
  moreover have "validateSecurityGroupId ''sg-0123456789abcdef0'' = Inr ''sg-0123456789abcdef0''"
    using T [of "''sg-0123456789abcdef0''", THEN conjunct2, THEN conjunct1] a(2) by (rule iffD2)
  moreover have "validateSubnetId ''subnet-12345678'' = Inr ''subnet-12345678''"
    using T [of "''subnet-12345678''", THEN conjunct2, THEN conjunct2, THEN conjunct1] a(3)
    by (rule iffD2)
  moreover have "throws_with (validateVpcId ''vpc-123456789'') ''vpc-123456789''"
    using T [of "''vpc-123456789''", THEN conjunct2, THEN conjunct2, THEN conjunct2,
        THEN conjunct1] r(1) by (rule mp)
  moreover have "throws_with (validateSecurityGroupId ''sg-1234ABCD'') ''sg-1234ABCD''"
    using T [of "''sg-1234ABCD''", THEN conjunct2, THEN conjunct2, THEN conjunct2,
        THEN conjunct2, THEN conjunct1] r(2) by (rule mp)
  moreover have "throws_with (validateSubnetId ''subnet-0123456789abcdef'')
      ''subnet-0123456789abcdef''"
    using T [of "''subnet-0123456789abcdef''", THEN conjunct2, THEN conjunct2, THEN conjunct2,
        THEN conjunct2, THEN conjunct2] r(3) by (rule mp)
  ultimately show ?thesis using r by (intro conjI)
qed

section \<open>Segments\<close>

lemma split_on_not_Nil [simp]: "split_on c s \<noteq> []"
  by (induction s) auto

lemma join_Cons_Cons: "join sep ((x # h) # t) = x # join sep (h # t)"
  by (cases t) auto

lemma join_split_on: "join [c] (split_on c s) = s"
proof (induction s)
  case Nil
  show ?case by simp
next
  case (Cons x xs)
  obtain h t where ht: "split_on c xs = h # t"
    by (cases "split_on c xs") auto
  show ?case
    using Cons ht by (auto simp: join_Cons_Cons)
qed

lemma join_concat: "join sep (w # ws) = w @ concat (map (\<lambda>x. sep @ x) ws)"
  by (induction ws arbitrary: w) auto

lemma split_on_free: "c \<notin> set w \<Longrightarrow> split_on c w = [w]"
proof (induction w)
  case Nil
  show ?case by simp
next
  case (Cons a w)
  then have "a \<noteq> c" and "split_on c w = [w]" by auto
  then show ?case by simp
qed

lemma split_on_append: "c \<notin> set w \<Longrightarrow> split_on c (w @ c # rest) = w # split_on c rest"
proof (induction w)
  case Nil
  show ?case by simp
next
  case (Cons a w)
  then have "a \<noteq> c" and "split_on c (w @ c # rest) = w # split_on c rest" by auto
  then show ?case by simp
qed

lemma split_on_join:
  "\<forall>w \<in> set (w0 # ws). c \<notin> set w \<Longrightarrow> split_on c (join [c] (w0 # ws)) = w0 # ws"
proof (induction ws arbitrary: w0)
  case Nil
  then show ?case by (simp add: split_on_free)
next
  case (Cons w ws)
  then have "split_on c (join [c] (w # ws)) = w # ws" by simp
  moreover have "c \<notin> set w0" using Cons.prems by simp
  ultimately show ?case by (simp add: split_on_append)
qed

lemma lang_Plus_alnum: "lang (Plus alnum_class) = {w. word w}"
  unfolding alnum_class_def lang_Plus_Class alnum_class_iff word_def list_all_iff ..

lemma star_hyphen_words:
  "v \<in> star {''-'' @ w | w. word w} \<longleftrightarrow>
   (\<exists>ws. (\<forall>w \<in> set ws. word w) \<and> v = concat (map (\<lambda>w. ''-'' @ w) ws))"
  (is "?L \<longleftrightarrow> ?R")
proof
  assume ?L
  then show ?R
  proof (induction rule: star.induct)
    case star_nil
    show ?case by (rule exI [of _ "[]"]) simp
  next
    case (star_app u v)
    then obtain w ws where "u = ''-'' @ w" "word w" "\<forall>w \<in> set ws. word w"
        "v = concat (map (\<lambda>w. ''-'' @ w) ws)"
      by blast
    then show ?case by (intro exI [of _ "w # ws"]) simp
  qed
next
  assume ?R
  then obtain ws where "\<forall>w \<in> set ws. word w" "v = concat (map (\<lambda>w. ''-'' @ w) ws)"
    by blast
  then show ?L
  proof (induction ws arbitrary: v)
    case Nil
    then show ?case by (simp add: star.star_nil)
  next
    case (Cons w ws)
    have "''-'' @ w \<in> {''-'' @ w | w. word w}" using Cons.prems by auto
    moreover have "concat (map (\<lambda>w. ''-'' @ w) ws) \<in> star {''-'' @ w | w. word w}"
      using Cons by simp
    ultimately have "(''-'' @ w) @ concat (map (\<lambda>w. ''-'' @ w) ws) \<in> star {''-'' @ w | w. word w}"
      by (rule star.star_app)
    then show ?case using Cons.prems by simp
  qed
qed

lemma lang_hyphen_word: "lang (Seq (Lit ''-'') (Plus alnum_class)) = {''-'' @ w | w. word w}"
  unfolding lang.simps(3) lang_Plus_alnum by auto

lemma Seq_iff: "s \<in> lang (Seq r1 r2) \<longleftrightarrow> (\<exists>u v. s = u @ v \<and> u \<in> lang r1 \<and> v \<in> lang r2)"
  by auto

lemma nested_concat_flat:
  "(\<exists>u v. s = u @ v \<and> P u \<and> (\<exists>a b. v = a @ b \<and> a = h \<and> (\<exists>c d. b = c @ d \<and> P c \<and> Q d)))
   \<longleftrightarrow> (\<exists>w1 w2 v. P w1 \<and> P w2 \<and> Q v \<and> s = w1 @ h @ w2 @ v)"
  by blast

lemma lang_region_conc:
  "s \<in> lang region_pattern \<longleftrightarrow>
   (\<exists>w1 w2 v. word w1 \<and> word w2 \<and> v \<in> star {''-'' @ w | w. word w} \<and> s = w1 @ ''-'' @ w2 @ v)"
proof -
  have "s \<in> lang region_pattern \<longleftrightarrow>
    (\<exists>u v. s = u @ v \<and> word u \<and> (\<exists>a b. v = a @ b \<and> a = ''-''
       \<and> (\<exists>c d. b = c @ d \<and> word c \<and> d \<in> star {''-'' @ w | w. word w})))"
    unfolding region_pattern_def Seq_iff [of _ "Plus alnum_class"] Seq_iff [of _ "Lit ''-''"]
      lang.simps(5) lang_hyphen_word lang_Plus_alnum lang.simps(1) mem_Collect_eq singleton_iff ..
  then show ?thesis unfolding nested_concat_flat .
qed

lemma lang_region:
  "s \<in> lang region_pattern \<longleftrightarrow>
   (\<exists>w1 w2 ws. word w1 \<and> word w2 \<and> (\<forall>w \<in> set ws. word w) \<and> s = join ''-'' (w1 # w2 # ws))"
  (is "?L \<longleftrightarrow> ?R")
proof
  assume ?L
  then obtain w1 w2 v where w: "word w1" "word w2" "v \<in> star {''-'' @ w | w. word w}"
      "s = w1 @ ''-'' @ w2 @ v"
    unfolding lang_region_conc by (elim exE conjE)
  from w(3) obtain ws where ws: "\<forall>w \<in> set ws. word w" "v = concat (map (\<lambda>w. ''-'' @ w) ws)"
    unfolding star_hyphen_words by (elim exE conjE)
  have "join ''-'' (w1 # w2 # ws) = w1 @ ''-'' @ w2 @ concat (map (\<lambda>w. ''-'' @ w) ws)"
    by (simp add: join_concat)
  then have "s = join ''-'' (w1 # w2 # ws)"
    using w(4) ws(2) by simp
  with w(1,2) ws(1) show ?R by (intro exI [of _ w1] exI [of _ w2] exI [of _ ws] conjI)
next
  assume ?R
  then obtain w1 w2 ws where w: "word w1" "word w2" "\<forall>w \<in> set ws. word w"
      "s = join ''-'' (w1 # w2 # ws)"
    by (elim exE conjE)
  define v where "v = concat (map (\<lambda>w. ''-'' @ w) ws)"
  have "\<exists>ws. (\<forall>w \<in> set ws. word w) \<and> v = concat (map (\<lambda>w. ''-'' @ w) ws)"
    using w(3) v_def by (intro exI [of _ ws] conjI)
  then have 1: "v \<in> star {''-'' @ w | w. word w}"
    unfolding star_hyphen_words .
  have "join ''-'' (w1 # w2 # ws) = w1 @ ''-'' @ w2 @ concat (map (\<lambda>w. ''-'' @ w) ws)"
    by (simp add: join_concat)
  then have 2: "s = w1 @ ''-'' @ w2 @ v"
    using w(4) v_def by simp
  show ?L
    unfolding lang_region_conc using w(1,2) 1 2
    by (intro exI [of _ w1] exI [of _ w2] exI [of _ v] conjI)
qed

lemma two_or_more: "2 \<le> length xs \<Longrightarrow> \<exists>a b r. xs = a # b # r"
proof (cases xs)
  case Nil
  assume "2 \<le> length xs"
  with Nil show ?thesis by simp
next
  case (Cons a ys)
  assume "2 \<le> length xs"
  with Cons show ?thesis by (cases ys) auto
qed

lemma hyphen_not_alnum: "\<not> is_lower_alnum CHR ''-''"
  by (simp add: is_lower_alnum_def)

lemma word_hyphen_free: "word w \<Longrightarrow> CHR ''-'' \<notin> set w"
proof
  assume "word w" "CHR ''-'' \<in> set w"
  then have "is_lower_alnum CHR ''-''"
    unfolding word_def list_all_iff by blast
  then show False using hyphen_not_alnum by blast
qed

lemma test_region: "test region_pattern s \<longleftrightarrow> hyphen_segments 2 s"
proof
  assume "test region_pattern s"
  then obtain w1 w2 ws where w: "word w1" "word w2" "\<forall>w \<in> set ws. word w"
      "s = join ''-'' (w1 # w2 # ws)"
    unfolding test_lang lang_region by (elim exE conjE)
  have "\<forall>w \<in> set (w1 # w2 # ws). word w"
    using w(1,2,3) by simp
  then have "\<forall>w \<in> set (w1 # w2 # ws). CHR ''-'' \<notin> set w"
    using word_hyphen_free by blast
  then have sp: "split_on CHR ''-'' s = w1 # w2 # ws"
    unfolding w(4) by (rule split_on_join)
  have "list_all word (w1 # w2 # ws)"
    using w(1,2,3) by (simp add: list_all_iff)
  then show "hyphen_segments 2 s"
    unfolding hyphen_segments_def sp by simp
next
  assume h: "hyphen_segments 2 s"
  then have "2 \<le> length (split_on CHR ''-'' s)"
    unfolding hyphen_segments_def by (rule conjunct1)
  then obtain w1 w2 ws where sp: "split_on CHR ''-'' s = w1 # w2 # ws"
    using two_or_more by blast
  have "join ''-'' (split_on CHR ''-'' s) = s"
    by (rule join_split_on)
  then have s: "s = join ''-'' (w1 # w2 # ws)"
    unfolding sp by (rule sym)
  have "list_all word (w1 # w2 # ws)"
    using h unfolding hyphen_segments_def sp by (rule conjunct2)
  then have "word w1" "word w2" "\<forall>w \<in> set ws. word w"
    by (simp_all add: list_all_iff)
  then show "test region_pattern s"
    unfolding test_lang lang_region using s
    by (intro exI [of _ w1] exI [of _ w2] exI [of _ ws] conjI)
qed

lemma validateRegion_accepts: "validateRegion s = Inr s \<longleftrightarrow> hyphen_segments 2 s"
  by (simp add: validateRegion_def test_region)

lemma validateRegion_rejects: "\<not> hyphen_segments 2 s \<Longrightarrow> throws (validateRegion s)"
  by (simp add: validateRegion_def test_region throws_def)

lemma one_segment_useast1: "hyphen_segments 1 ''useast1''"
  by (simp add: hyphen_segments_def word_def is_lower_alnum_def)

lemma not_two_segments_useast1: "\<not> hyphen_segments 2 ''useast1''"
  by (simp add: hyphen_segments_def)

lemma segments_us_east_1: "hyphen_segments 2 ''us-east-1''"
  by (simp add: hyphen_segments_def word_def is_lower_alnum_def)

text \<open>
  C4, as stated, fails: \<open>useast1\<close> is one lowercase-alphanumeric segment with no hyphen,
  and the region validator rejects it.
\<close>

theorem region_single_segment_rejected:
  "hyphen_segments 1 ''useast1'' \<and> throws (validateRegion ''useast1'')"
  using one_segment_useast1 validateRegion_rejects [OF not_two_segments_useast1] by (rule conjI)

text \<open>
  C4, amended. For every string, the region validator accepts it (returns it) exactly
  when it consists of two or more lowercase-alphanumeric segments separated by hyphens;
  every other string, a single segment without hyphen among them, is rejected.
\<close>

theorem region_validator_accepts_iff_two_segments:
  "(validateRegion s = Inr s \<longleftrightarrow> hyphen_segments 2 s)
   \<and> (\<not> hyphen_segments 2 s \<longrightarrow> throws (validateRegion s))"
  using validateRegion_accepts validateRegion_rejects by blast

theorem region_validator_witness:
  "validateRegion ''us-east-1'' = Inr ''us-east-1''
   \<and> \<not> hyphen_segments 2 ''useast1'' \<and> throws (validateRegion ''useast1'')"
proof -
  note T = region_validator_accepts_iff_two_segments
  have "validateRegion ''us-east-1'' = Inr ''us-east-1''"
    using T [of "''us-east-1''", THEN conjunct1] segments_us_east_1 by (rule iffD2)
  moreover have "throws (validateRegion ''useast1'')"
    using T [of "''useast1''", THEN conjunct2] not_two_segments_useast1 by (rule mp)
  ultimately show ?thesis using not_two_segments_useast1 by (intro conjI)
qed

section \<open>Resource sizing\<close>

text \<open>The record a class passes to \<open>BaseConfig\<close> holds each name once.\<close>

lemma assign_distinct:
  "distinct (map fst target) \<Longrightarrow> distinct (map fst (assign target source))"
  unfolding assign_def
proof (induction source arbitrary: target)
  case Nil
  then show ?case by simp
next
  case (Cons a source)
  obtain k v where a: "a = (k, v)" by (cases a)
  have "distinct (map fst (AList.update k v target))"
    using Cons.prems by (simp add: distinct_update)
  from Cons.IH [OF this] show ?case unfolding a by simp
qed

lemma merged_dataplane_distinct: "distinct (map fst (merged_dataplane config))"
  unfolding merged_dataplane_def
  by (rule assign_distinct) (simp add: dataplane_defaults_def)

text \<open>
  The instance finds \<open>validateConfig\<close> exactly when the merged record has no field of that
  name and no \<open>__proto__\<close> field that replaces the prototype.
\<close>

lemma set_property_prototype:
  "replaced_prototype (set_property t (k, v)) = None \<longleftrightarrow>
     replaced_prototype t = None \<and> \<not> (k = ''__proto__'' \<and> typeof v = ''object'')"
  by simp

lemma set_property_own:
  "n \<noteq> ''__proto__'' \<Longrightarrow>
   map_of (own_properties (set_property t (k, v))) n = None \<longleftrightarrow>
     map_of (own_properties t) n = None \<and> k \<noteq> n"
  by (simp add: AList.update_conv')

lemma fold_set_property_prototype:
  "replaced_prototype (fold (\<lambda>p this. set_property this p) m t) = None \<longleftrightarrow>
     replaced_prototype t = None
     \<and> list_all (\<lambda>(k, v). \<not> (k = ''__proto__'' \<and> typeof v = ''object'')) m"
proof (induction m arbitrary: t)
  case Nil
  show ?case by simp
next
  case (Cons a m)
  obtain k v where a: "a = (k, v)" by (cases a)
  show ?case
    unfolding a fold_simps list.pred_inject Cons.IH set_property_prototype
    by (simp only: prod.case conj_assoc)
qed

lemma fold_set_property_own:
  assumes "n \<noteq> ''__proto__''"
  shows "map_of (own_properties (fold (\<lambda>p this. set_property this p) m t)) n = None \<longleftrightarrow>
     map_of (own_properties t) n = None \<and> list_all (\<lambda>(k, v). k \<noteq> n) m"
proof (induction m arbitrary: t)
  case Nil
  show ?case by simp
next
  case (Cons a m)
  obtain k v where a: "a = (k, v)" by (cases a)
  show ?case
    unfolding a fold_simps list.pred_inject Cons.IH set_property_own [OF assms]
    by (simp only: prod.case conj_assoc)
qed

lemma method_intact_split:
  "method_intact m \<longleftrightarrow>
     list_all (\<lambda>(k, v). k \<noteq> ''validateConfig'') m
     \<and> list_all (\<lambda>(k, v). \<not> (k = ''__proto__'' \<and> typeof v = ''object'')) m"
  unfolding method_intact_def by (induction m) (simp_all only: list.pred_inject prod.case split_beta, blast+)

lemma finds_method_BaseConfig:
  "finds_method (BaseConfig m) ''validateConfig'' \<longleftrightarrow> method_intact m"
proof -
  have ne: "''validateConfig'' \<noteq> ''__proto__''" by simp
  show ?thesis
    unfolding finds_method_def BaseConfig_def method_intact_split fold_set_property_own [OF ne]
      fold_set_property_prototype
    by simp
qed

lemma DataplaneConfig_unfold:
  "DataplaneConfig config =
     (if \<not> method_intact (merged_dataplane config) then
        Inl (TypeError ''this.validateConfig is not a function'')
      else if sizing_errors (merged_dataplane config) = []
      then Inr (BaseConfig (merged_dataplane config))
      else Inl (Error (''Configuration validation failed:'' @ [CHR 0x0A]
                  @ join [CHR 0x0A] (sizing_errors (merged_dataplane config)))))"
  unfolding DataplaneConfig_def Let_def finds_method_BaseConfig merged_dataplane_def [symmetric]
  by (simp add: validateConfig_def and_then_def Let_def)

lemma lt_iff_not_ge: "n \<noteq> NaN \<Longrightarrow> js_lt n c \<longleftrightarrow> \<not> js_ge n c"
  by (cases n) auto

lemma gt_iff_not_le: "n \<noteq> NaN \<Longrightarrow> js_gt n c \<longleftrightarrow> \<not> js_le n c"
  by (cases n) auto

lemma sizing_errors_numbers:
  assumes "get_prop (JObj m) ''ECS_TASK_CPU'' = JNum cpu"
    and "get_prop (JObj m) ''ECS_TASK_MEMORY'' = JNum mem"
    and "cpu \<noteq> NaN" and "mem \<noteq> NaN"
  shows "sizing_errors m = expected_violations cpu mem"
  unfolding sizing_errors_def expected_violations_def Let_def assms(1,2) number_or_zero_def
  using assms(3,4) by (simp add: lt_iff_not_ge gt_iff_not_le)

lemma expected_violations_Nil: "expected_violations cpu mem = [] \<longleftrightarrow> sizing_in_bounds cpu mem"
  by (simp add: expected_violations_def sizing_in_bounds_def)

lemma sizing_numbers:
  assumes "get_prop (JObj (merged_dataplane config)) ''ECS_TASK_CPU'' = JNum cpu"
    and "get_prop (JObj (merged_dataplane config)) ''ECS_TASK_MEMORY'' = JNum mem"
    and "cpu \<noteq> NaN" and "mem \<noteq> NaN"
    and "method_intact (merged_dataplane config)"
  shows "DataplaneConfig config =
     (if sizing_in_bounds cpu mem then Inr (BaseConfig (merged_dataplane config))
      else Inl (Error (''Configuration validation failed:'' @ [CHR 0x0A]
                  @ join [CHR 0x0A] (expected_violations cpu mem))))"
  unfolding DataplaneConfig_unfold sizing_errors_numbers [OF assms(1-4)] expected_violations_Nil
  using assms(5) by simp


lemma merged_cpu_NaN:
  "merged_dataplane (JObj [(''ECS_TASK_CPU'', JNum NaN)]) =
     [(''BUILD_FROM_SOURCE'', JBool False),
      (''CONTAINER_BUILD_PATH'', JStr ''../''),
      (''CONTAINER_BUILD_TARGET'', JStr ''tile_server''),
      (''CONTAINER_DOCKERFILE'', JStr ''docker/Dockerfile.tile_server''),
      (''CONTAINER_URI'', JStr ''awsosml/osml-tile-server:latest''),
      (''CW_LOGGROUP_NAME'', JStr ''TSService''),
      (''CW_METRICS_NAMESPACE'', JStr ''OSML''),
      (''DDB_JOB_TABLE'', JStr ''TSJobTable''),
      (''DDB_TTL_ATTRIBUTE'', JStr ''expire_time''),
      (''EFS_MOUNT_NAME'', JStr ''ts-efs-volume''),
      (''ECS_CONTAINER_CPU'', JNum (Finite 8192)),
      (''ECS_CONTAINER_MEMORY'', JNum (Finite 16384)),
      (''ECS_CONTAINER_NAME'', JStr ''TSContainer''),
      (''ECS_CONTAINER_PORT'', JNum (Finite 8080)),
      (''ECS_CLUSTER_NAME'', JStr ''TSCluster''),
      (''ECS_TASK_CPU'', JNum NaN),
      (''ECS_TASK_MEMORY'', JNum (Finite 16384)),
      (''SQS_JOB_QUEUE'', JStr ''TSJobQueue'')]"
  by (simp add: merged_dataplane_def assign_def dataplane_defaults_def)

lemma errors_cpu_NaN: "sizing_errors (merged_dataplane (JObj [(''ECS_TASK_CPU'', JNum NaN)])) = []"
  unfolding merged_cpu_NaN by (simp add: sizing_errors_def number_or_zero_def)

lemma method_intact_cpu_NaN:
  "method_intact (merged_dataplane (JObj [(''ECS_TASK_CPU'', JNum NaN)]))"
  unfolding merged_cpu_NaN by (simp add: method_intact_def)

lemma merged_validateConfig_key:
  "get_prop (JObj (merged_dataplane (JObj [(''validateConfig'', JNum (Finite 1))])))
       ''ECS_TASK_CPU'' = JNum (Finite 8192)"
  "get_prop (JObj (merged_dataplane (JObj [(''validateConfig'', JNum (Finite 1))])))
       ''ECS_TASK_MEMORY'' = JNum (Finite 16384)"
  "\<not> method_intact (merged_dataplane (JObj [(''validateConfig'', JNum (Finite 1))]))"
  by (simp_all add: merged_dataplane_def assign_def dataplane_defaults_def method_intact_def)

lemma DataplaneConfig_method_missing:
  "\<not> method_intact (merged_dataplane config) \<Longrightarrow>
   DataplaneConfig config = Inl (TypeError ''this.validateConfig is not a function'')"
  unfolding DataplaneConfig_unfold by simp

text \<open>
  C2, as stated, fails in both directions. With \<open>ECS_TASK_CPU\<close> set to \<open>NaN\<close> both merged
  sizing values are numbers, neither comparison of the validator holds, and the
  construction succeeds although \<open>256 <= NaN\<close> is false. With a field named
  \<open>validateConfig\<close> in the configuration both merged sizing values are the defaults 8192
  and 16384, inside the bounds, and the construction throws: \<open>Object.assign\<close> has put the
  field on the instance, where it hides the method, and the call
  \<open>this.validateConfig(mergedConfig)\<close> raises a \<open>TypeError\<close> whose message has no header.
\<close>

theorem dataplane_bounds_not_decisive:
  "is_number (get_prop (JObj (merged_dataplane (JObj [(''ECS_TASK_CPU'', JNum NaN)]))) ''ECS_TASK_CPU'')
   \<and> is_number (get_prop (JObj (merged_dataplane (JObj [(''ECS_TASK_CPU'', JNum NaN)]))) ''ECS_TASK_MEMORY'')
   \<and> \<not> throws (DataplaneConfig (JObj [(''ECS_TASK_CPU'', JNum NaN)]))
   \<and> \<not> js_ge NaN 256
   \<and> get_prop (JObj (merged_dataplane (JObj [(''validateConfig'', JNum (Finite 1))])))
       ''ECS_TASK_CPU'' = JNum (Finite 8192)
   \<and> get_prop (JObj (merged_dataplane (JObj [(''validateConfig'', JNum (Finite 1))])))
       ''ECS_TASK_MEMORY'' = JNum (Finite 16384)
   \<and> sizing_in_bounds (Finite 8192) (Finite 16384)
   \<and> DataplaneConfig (JObj [(''validateConfig'', JNum (Finite 1))])
       = Inl (TypeError ''this.validateConfig is not a function'')
   \<and> throws (DataplaneConfig (JObj [(''validateConfig'', JNum (Finite 1))]))"
proof -
  have "\<not> throws (DataplaneConfig (JObj [(''ECS_TASK_CPU'', JNum NaN)]))"
    unfolding DataplaneConfig_unfold errors_cpu_NaN
    using method_intact_cpu_NaN by (simp add: throws_def)
  moreover have
    "is_number (get_prop (JObj (merged_dataplane (JObj [(''ECS_TASK_CPU'', JNum NaN)]))) ''ECS_TASK_CPU'')"
    "is_number (get_prop (JObj (merged_dataplane (JObj [(''ECS_TASK_CPU'', JNum NaN)]))) ''ECS_TASK_MEMORY'')"
    unfolding merged_cpu_NaN by (simp_all add: is_number_def)
  moreover have "sizing_in_bounds (Finite 8192) (Finite 16384)"
    by (simp add: sizing_in_bounds_def)
  moreover have key: "DataplaneConfig (JObj [(''validateConfig'', JNum (Finite 1))])
       = Inl (TypeError ''this.validateConfig is not a function'')"
    by (rule DataplaneConfig_method_missing) (rule merged_validateConfig_key(3))
  moreover have "throws (DataplaneConfig (JObj [(''validateConfig'', JNum (Finite 1))]))"
    unfolding key by (simp add: throws_def)
  ultimately show ?thesis
    using merged_validateConfig_key(1,2) by simp
qed

text \<open>
  C2, amended. For every DataplaneConfig construction whose merged \<open>ECS_TASK_CPU\<close> and
  \<open>ECS_TASK_MEMORY\<close> values are numbers other than \<open>NaN\<close>, and whose configuration has no
  field named \<open>validateConfig\<close> and no field \<open>__proto__\<close> holding an object or \<open>null\<close> (so
  that the instance still finds its validator), construction succeeds iff
  \<open>256 <= ECS_TASK_CPU <= 16384\<close> and \<open>512 <= ECS_TASK_MEMORY <= 122880\<close>, both bounds
  inclusive; otherwise it throws one error whose message is the header
  \<open>Configuration validation failed:\<close> followed by one line per violated bound, the
  compute violations before the memory violations.
\<close>

theorem dataplane_sizing_bounds:
  assumes "get_prop (JObj (merged_dataplane config)) ''ECS_TASK_CPU'' = JNum cpu"
    and "get_prop (JObj (merged_dataplane config)) ''ECS_TASK_MEMORY'' = JNum mem"
    and "cpu \<noteq> NaN" and "mem \<noteq> NaN"
    and "method_intact (merged_dataplane config)"
  shows "(\<not> throws (DataplaneConfig config) \<longleftrightarrow> sizing_in_bounds cpu mem)
    \<and> (sizing_in_bounds cpu mem \<longrightarrow>
          DataplaneConfig config = Inr (BaseConfig (merged_dataplane config)))
    \<and> (\<not> sizing_in_bounds cpu mem \<longrightarrow>
          expected_violations cpu mem \<noteq> []
          \<and> DataplaneConfig config =
              Inl (Error (''Configuration validation failed:'' @ [CHR 0x0A]
                     @ join [CHR 0x0A] (expected_violations cpu mem))))"
  unfolding sizing_numbers [OF assms] by (simp add: throws_def expected_violations_Nil)


theorem dataplane_sizing_bounds_witness:
  "DataplaneConfig (JObj [(''ECS_TASK_CPU'', JNum (Finite 128)), (''ECS_TASK_MEMORY'', JNum (Finite 256))])
     = Inl (Error (''Configuration validation failed:'' @ [CHR 0x0A]
              @ ''ECS_TASK_CPU must be at least 256 (0.25 vCPU)'' @ [CHR 0x0A]
              @ ''ECS_TASK_MEMORY must be at least 512 MiB''))
   \<and> \<not> throws (DataplaneConfig
          (JObj [(''ECS_TASK_CPU'', JNum (Finite 16384)), (''ECS_TASK_MEMORY'', JNum (Finite 122880))]))"
proof -
  let ?low = "JObj [(''ECS_TASK_CPU'', JNum (Finite 128)), (''ECS_TASK_MEMORY'', JNum (Finite 256))]"
  let ?top = "JObj [(''ECS_TASK_CPU'', JNum (Finite 16384)), (''ECS_TASK_MEMORY'', JNum (Finite 122880))]"
  have low: "get_prop (JObj (merged_dataplane ?low)) ''ECS_TASK_CPU'' = JNum (Finite 128)"
    "get_prop (JObj (merged_dataplane ?low)) ''ECS_TASK_MEMORY'' = JNum (Finite 256)"
    by (simp_all add: merged_dataplane_def assign_def dataplane_defaults_def)
  have top: "get_prop (JObj (merged_dataplane ?top)) ''ECS_TASK_CPU'' = JNum (Finite 16384)"
    "get_prop (JObj (merged_dataplane ?top)) ''ECS_TASK_MEMORY'' = JNum (Finite 122880)"
    by (simp_all add: merged_dataplane_def assign_def dataplane_defaults_def)
  have intact: "method_intact (merged_dataplane ?low)" "method_intact (merged_dataplane ?top)"
    by (simp_all add: merged_dataplane_def assign_def dataplane_defaults_def method_intact_def)
  have out: "\<not> sizing_in_bounds (Finite 128) (Finite 256)"
    and inside: "sizing_in_bounds (Finite 16384) (Finite 122880)"
    by (simp_all add: sizing_in_bounds_def)
  have lines: "join [CHR 0x0A] (expected_violations (Finite 128) (Finite 256)) =
      ''ECS_TASK_CPU must be at least 256 (0.25 vCPU)'' @ [CHR 0x0A]
        @ ''ECS_TASK_MEMORY must be at least 512 MiB''"
    by (simp add: expected_violations_def cpu_min_msg_def mem_min_msg_def)
  have "DataplaneConfig ?low = Inl (Error (''Configuration validation failed:'' @ [CHR 0x0A]
      @ join [CHR 0x0A] (expected_violations (Finite 128) (Finite 256))))"
    using dataplane_sizing_bounds [OF low _ _ intact(1), THEN conjunct2, THEN conjunct2] out by simp
  then have 1: "DataplaneConfig ?low = Inl (Error (''Configuration validation failed:'' @ [CHR 0x0A]
      @ ''ECS_TASK_CPU must be at least 256 (0.25 vCPU)'' @ [CHR 0x0A]
      @ ''ECS_TASK_MEMORY must be at least 512 MiB''))"
    unfolding lines .
  have 2: "\<not> throws (DataplaneConfig ?top)"
    using dataplane_sizing_bounds [OF top _ _ intact(2), THEN conjunct1] inside by simp
  from 1 2 show ?thesis by (rule conjI)
qed

section \<open>Sizing values that are not numbers\<close>
















section \<open>Trimming\<close>

lemma trim_append_rest:
  "dropWhile is_whitespace s = trim s @ rev (takeWhile is_whitespace (rev (dropWhile is_whitespace s)))"
proof -
  define d where "d = dropWhile is_whitespace s"
  have "rev (takeWhile is_whitespace (rev d) @ dropWhile is_whitespace (rev d)) = d"
    by (simp only: takeWhile_dropWhile_id rev_rev_ident)
  then have "rev (dropWhile is_whitespace (rev d)) @ rev (takeWhile is_whitespace (rev d)) = d"
    by (simp only: rev_append)
  then show ?thesis unfolding d_def trim_def by (rule sym)
qed

lemma trim_decomposition:
  "\<exists>l r. s = l @ trim s @ r \<and> list_all is_whitespace l \<and> list_all is_whitespace r"
proof (intro exI conjI)
  show "s = takeWhile is_whitespace s @ trim s
      @ rev (takeWhile is_whitespace (rev (dropWhile is_whitespace s)))"
    using trim_append_rest [of s] takeWhile_dropWhile_id [of is_whitespace s] by simp
  show "list_all is_whitespace (takeWhile is_whitespace s)"
    unfolding list_all_iff by (auto dest: set_takeWhileD)
  show "list_all is_whitespace (rev (takeWhile is_whitespace (rev (dropWhile is_whitespace s))))"
    unfolding list_all_iff by (auto dest: set_takeWhileD)
qed

lemma trim_ends:
  assumes "trim s \<noteq> []"
  shows "\<not> is_whitespace (hd (trim s)) \<and> \<not> is_whitespace (last (trim s))"
proof
  define d where "d = dropWhile is_whitespace s"
  define e where "e = dropWhile is_whitespace (rev d)"
  have t: "trim s = rev e" unfolding trim_def e_def d_def ..
  with assms have e: "e \<noteq> []" by simp
  then have "\<not> is_whitespace (hd e)" unfolding e_def by (rule hd_dropWhile)
  then show "\<not> is_whitespace (last (trim s))"
    unfolding t using e by (simp add: last_rev)
  have "d = trim s @ rev (takeWhile is_whitespace (rev d))"
    unfolding d_def by (rule trim_append_rest)
  with assms have "d \<noteq> []" and "hd d = hd (trim s)"
    by (metis append_is_Nil_conv, metis hd_append2)
  moreover from \<open>d \<noteq> []\<close> have "\<not> is_whitespace (hd d)" unfolding d_def by (rule hd_dropWhile)
  ultimately show "\<not> is_whitespace (hd (trim s))" by simp
qed

lemma dropWhile_self: "xs \<noteq> [] \<Longrightarrow> \<not> P (hd xs) \<Longrightarrow> dropWhile P xs = xs"
  by (cases xs) auto

lemma all_dropWhile: "(\<forall>x \<in> set (dropWhile P s). P x) \<longleftrightarrow> (\<forall>x \<in> set s. P x)"
  by (metis dropWhile_eq_Nil_conv hd_dropWhile hd_in_set set_dropWhileD)

lemma trim_fixed:
  assumes "t = [] \<or> (\<not> is_whitespace (hd t) \<and> \<not> is_whitespace (last t))"
  shows "trim t = t"
proof (cases t)
  case Nil
  then show ?thesis by (simp add: trim_def)
next
  case (Cons c cs)
  with assms have h: "\<not> is_whitespace (hd t)" and l: "\<not> is_whitespace (last t)" by auto
  from h Cons have 1: "dropWhile is_whitespace t = t" by simp
  from Cons have "rev t \<noteq> []" and "hd (rev t) = last t" by (simp_all add: hd_rev)
  with l have 2: "dropWhile is_whitespace (rev t) = rev t" by (intro dropWhile_self) simp_all
  show ?thesis unfolding trim_def 1 2 by simp
qed

lemma trim_idempotent: "trim (trim s) = trim s"
  using trim_ends [of s] by (intro trim_fixed) blast

lemma trim_Nil_iff: "trim s = [] \<longleftrightarrow> list_all is_whitespace s"
  by (simp add: trim_def list_all_iff dropWhile_eq_Nil_conv all_dropWhile)

lemma trim_whitespace_only: "list_all is_whitespace s \<Longrightarrow> trim s = []"
  by (simp add: trim_Nil_iff)

lemma trim_example: "trim ''  x  '' = ''x''"
  by (simp add: trim_def is_whitespace_def)

section \<open>The string field validator\<close>

lemma validateStringField_string:
  "validateStringField (JStr s) f req =
     (if req \<and> trim s = [] then
        Inl (DeploymentConfigError
          (''Field '' @ [CHR 0x27] @ f @ [CHR 0x27]
            @ '' cannot be empty or contain only whitespace'') (Some f))
      else Inr (trim s))"
  by (simp add: validateStringField_def Let_def)

lemma validateStringField_Inr:
  "validateStringField (JStr s) f req = Inr t \<Longrightarrow> t = trim s"
  by (simp add: validateStringField_string split: if_splits)

lemma validateStringField_idempotent:
  "validateStringField (JStr s) f req = Inr t \<Longrightarrow> validateStringField (JStr t) f req = Inr t"
  by (auto simp: validateStringField_string trim_idempotent split: if_splits)

lemma includes_cannot_be_empty:
  "js_includes (a @ '' cannot be empty or contain only whitespace'')
     ''cannot be empty or contain only whitespace''"
  using js_includes_middle [of "a @ '' ''" "''cannot be empty or contain only whitespace''" "[]"]
  by simp

lemma validateStringField_blank:
  "list_all is_whitespace s \<Longrightarrow>
   throws_with (validateStringField (JStr s) f True) ''cannot be empty or contain only whitespace''"
  using includes_cannot_be_empty [of "''Field '' @ [CHR 0x27] @ f @ [CHR 0x27]"]
  by (simp add: validateStringField_string trim_whitespace_only throws_with_def)

section \<open>The loader, stage by stage\<close>

lemma and_then_simps [simp]:
  "and_then (Inl e) f = Inl e"
  "and_then (Inr x) f = f x"
  by (simp_all add: and_then_def)

lemma and_then_Inr_iff: "and_then r f = Inr y \<longleftrightarrow> (\<exists>x. r = Inr x \<and> f x = Inr y)"
  by (cases r) simp_all

lemma throws_Inl [simp]: "throws (Inl e)" and throws_Inr [simp]: "\<not> throws (Inr x)"
  by (simp_all add: throws_def)

lemma throws_with_Inl [simp]: "throws_with (Inl e) t \<longleftrightarrow> js_includes (message e) t"
  and throws_with_Inr [simp]: "\<not> throws_with (Inr x) t"
  by (simp_all add: throws_with_def)

lemma load_parsed_eq: "load_parsed parsed = validate_parsed parsed"
  unfolding load_parsed_def loadDeploymentConfig_def
  by (cases "validate_parsed parsed") simp_all

lemma test_accountId: "test accountId_pattern s \<longleftrightarrow> account_id_shape s"
  unfolding test_lang accountId_pattern_def digit_class_def lang_Rep_Class digit_class_iff
    account_id_shape_def list_all_iff by simp

lemma validateAccountId_accepts: "validateAccountId s = Inr s \<longleftrightarrow> account_id_shape s"
  by (simp add: validateAccountId_def test_accountId)

lemma validateAccountId_ok: "account_id_shape s \<Longrightarrow> validateAccountId s = Inr s"
  by (simp add: validateAccountId_accepts)

lemma validateRegion_ok: "hyphen_segments 2 s \<Longrightarrow> validateRegion s = Inr s"
  by (simp add: validateRegion_accepts)

lemma validateVpcId_ok: "identifier_shape ''vpc-'' s \<Longrightarrow> validateVpcId s = Inr s"
  by (simp add: validateVpcId_accepts)

lemma validateSecurityGroupId_ok: "identifier_shape ''sg-'' s \<Longrightarrow> validateSecurityGroupId s = Inr s"
  by (simp add: validateSecurityGroupId_accepts)

lemma validateSubnetId_ok: "identifier_shape ''subnet-'' s \<Longrightarrow> validateSubnetId s = Inr s"
  by (simp add: validateSubnetId_accepts)

lemma validate_parsed_Inr_iff:
  "validate_parsed cfg = Inr r \<longleftrightarrow>
     truthy cfg \<and> typeof cfg = ''object''
     \<and> (\<exists>pn acct nc dit.
          parse_projectName cfg = Inr pn \<and> parse_account cfg = Inr acct
          \<and> parse_networkConfig cfg = Inr nc
          \<and> validateBooleanField (get_prop cfg ''deployIntegrationTests'')
               ''deployIntegrationTests'' False (Some True) = Inr dit
          \<and> r = \<lparr>projectName = pn, account = acct, networkConfig = nc,
                  dataplaneConfig = parse_dataplaneConfig cfg,
                  deployIntegrationTests = dit,
                  testImageryConfig = parse_testImageryConfig cfg dit,
                  testConfig = parse_testConfig cfg dit\<rparr>)"
  unfolding validate_parsed_def Let_def
  by (simp add: and_then_Inr_iff; blast)

lemma validate_parsed_stages:
  assumes "truthy cfg" and "typeof cfg = ''object''"
    and "parse_projectName cfg = Inr pn" and "parse_account cfg = Inr acct"
    and "parse_networkConfig cfg = Inr nc"
    and "validateBooleanField (get_prop cfg ''deployIntegrationTests'')
           ''deployIntegrationTests'' False (Some True) = Inr dit"
  shows "validate_parsed cfg =
     Inr \<lparr>projectName = pn, account = acct, networkConfig = nc,
          dataplaneConfig = parse_dataplaneConfig cfg,
          deployIntegrationTests = dit,
          testImageryConfig = parse_testImageryConfig cfg dit,
          testConfig = parse_testConfig cfg dit\<rparr>"
  unfolding validate_parsed_def Let_def using assms(1,2)
  by (simp add: assms(3-6))

lemma validateBooleanField_Inr_iff:
  "validateBooleanField v f req d = Inr b \<longleftrightarrow>
     (if v = JUndefined \<or> v = JNull then \<not> req \<and> b = (case d of None \<Rightarrow> False | Some x \<Rightarrow> x)
      else v = JBool b)"
  by (cases v) (auto simp: validateBooleanField_def)


lemma parse_projectName_string:
  "get_prop cfg ''projectName'' = JStr pn \<Longrightarrow> trim pn \<noteq> [] \<Longrightarrow>
   parse_projectName cfg = Inr (trim pn)"
  by (simp add: parse_projectName_def validateStringField_string)

lemma parse_account_minimal:
  assumes "get_prop cfg ''account'' = JObj akvs"
    and "get_prop (JObj akvs) ''id'' = JStr i"
    and "get_prop (JObj akvs) ''region'' = JStr rg"
    and "get_prop (JObj akvs) ''prodLike'' = JBool b"
    and "get_prop (JObj akvs) ''isAdc'' = JUndefined"
    and "account_id_shape (trim i)" and "hyphen_segments 2 (trim rg)"
  shows "parse_account cfg = Inr \<lparr>id' = trim i, region = trim rg, prodLike = b, isAdc = False\<rparr>"
proof -
  have i: "trim i \<noteq> []" using assms(6) by (auto simp: account_id_shape_def)
  have r: "trim rg \<noteq> []" using assms(7) by (auto simp: hyphen_segments_def)
  show ?thesis
    unfolding parse_account_def Let_def assms(1)
    using assms(2-5) i r
    by (simp add: validateStringField_string validateAccountId_ok [OF assms(6)]
        validateRegion_ok [OF assms(7)] validateBooleanField_def)
qed

lemma parse_account_isAdc_default:
  assumes "parse_account cfg = Inr a"
    and "get_prop (get_prop cfg ''account'') ''isAdc'' = JUndefined"
  shows "isAdc a = False"
proof -
  from assms(1) obtain v where
    "validateBooleanField (get_prop (get_prop cfg ''account'') ''isAdc'') ''account.isAdc'' False
       (Some False) = Inr v" and "isAdc a = v"
    unfolding parse_account_def Let_def
    by (auto simp: and_then_Inr_iff split: if_splits)
  then show ?thesis
    unfolding assms(2) by (simp add: validateBooleanField_def)
qed

lemma absent_sections:
  assumes "get_prop cfg ''networkConfig'' = JUndefined"
    and "get_prop cfg ''dataplaneConfig'' = JUndefined"
    and "get_prop cfg ''testImageryConfig'' = JUndefined"
    and "get_prop cfg ''testConfig'' = JUndefined"
  shows "parse_networkConfig cfg = Inr None" "parse_dataplaneConfig cfg = None"
    "parse_testImageryConfig cfg d = None" "parse_testConfig cfg d = None"
  using assms
  by (simp_all add: parse_networkConfig_def parse_dataplaneConfig_def
      parse_testImageryConfig_def parse_testConfig_def)

lemma minimal_loads:
  assumes "dom (map_of kvs) = {''projectName'', ''account''}"
    and "map_of kvs ''projectName'' = Some (JStr pn)"
    and "map_of kvs ''account'' = Some (JObj akvs)"
    and "dom (map_of akvs) = {''id'', ''region'', ''prodLike''}"
    and "map_of akvs ''id'' = Some (JStr i)"
    and "map_of akvs ''region'' = Some (JStr rg)"
    and "map_of akvs ''prodLike'' = Some (JBool b)"
    and "trim pn \<noteq> []" and "account_id_shape (trim i)" and "hyphen_segments 2 (trim rg)"
  shows "load_parsed (JObj kvs) =
     Inr \<lparr>projectName = trim pn,
          account = \<lparr>id' = trim i, region = trim rg, prodLike = b, isAdc = False\<rparr>,
          networkConfig = None, dataplaneConfig = None, deployIntegrationTests = True,
          testImageryConfig = None, testConfig = None\<rparr>"
proof -
  have none: "map_of kvs k = None" if "k \<notin> {''projectName'', ''account''}" for k
  proof -
    from that have "k \<notin> dom (map_of kvs)" unfolding assms(1) .
    then show ?thesis by (simp add: domIff)
  qed
  have absent: "get_prop (JObj kvs) ''networkConfig'' = JUndefined"
    "get_prop (JObj kvs) ''dataplaneConfig'' = JUndefined"
    "get_prop (JObj kvs) ''deployIntegrationTests'' = JUndefined"
    "get_prop (JObj kvs) ''testImageryConfig'' = JUndefined"
    "get_prop (JObj kvs) ''testConfig'' = JUndefined"
    by (simp_all add: none)
  have "''isAdc'' \<notin> {''id'', ''region'', ''prodLike''}" by simp
  then have "''isAdc'' \<notin> dom (map_of akvs)" unfolding assms(4) .
  then have "map_of akvs ''isAdc'' = None" by (simp add: domIff)
  then have adc: "get_prop (JObj akvs) ''isAdc'' = JUndefined" by simp
  have p: "parse_projectName (JObj kvs) = Inr (trim pn)"
    using assms(2,8) by (intro parse_projectName_string) simp_all
  have a: "parse_account (JObj kvs) =
      Inr \<lparr>id' = trim i, region = trim rg, prodLike = b, isAdc = False\<rparr>"
    using assms(3,5,6,7,9,10) adc by (intro parse_account_minimal [of _ akvs]) simp_all
  have d: "validateBooleanField (get_prop (JObj kvs) ''deployIntegrationTests'')
      ''deployIntegrationTests'' False (Some True) = Inr True"
    unfolding absent by (simp add: validateBooleanField_def)
  have "validate_parsed (JObj kvs) =
     Inr \<lparr>projectName = trim pn,
          account = \<lparr>id' = trim i, region = trim rg, prodLike = b, isAdc = False\<rparr>,
          networkConfig = None,
          dataplaneConfig = parse_dataplaneConfig (JObj kvs),
          deployIntegrationTests = True,
          testImageryConfig = parse_testImageryConfig (JObj kvs) True,
          testConfig = parse_testConfig (JObj kvs) True\<rparr>"
    using p a absent_sections(1) [OF absent(1,2,4,5)] d
    by (intro validate_parsed_stages) simp_all
  then show ?thesis
    unfolding load_parsed_eq absent_sections [OF absent(1,2,4,5)] .
qed

section \<open>The test files\<close>

lemma trim_test_values:
  "trim ''test-project'' = ''test-project''"
  "trim ''123456789012'' = ''123456789012''"
  "trim ''us-west-2'' = ''us-west-2''"
  by (simp_all add: trim_def is_whitespace_def)

lemma shapes_test_values:
  "account_id_shape ''123456789012''" "hyphen_segments 2 ''us-west-2''"
  by (simp_all add: account_id_shape_def is_digit_def hyphen_segments_def word_def
      is_lower_alnum_def)

lemma minimal_file_props:
  "get_prop (JObj (minimal_file @ extra)) ''projectName'' = JStr ''test-project''"
  "get_prop (JObj (minimal_file @ extra)) ''account'' =
     JObj [(''id'', JStr ''123456789012''), (''region'', JStr ''us-west-2''),
           (''prodLike'', JBool False)]"
  by (simp_all add: minimal_file_def)

lemma minimal_file_other:
  "k \<noteq> ''projectName'' \<Longrightarrow> k \<noteq> ''account'' \<Longrightarrow>
   get_prop (JObj (minimal_file @ extra)) k = get_prop (JObj extra) k"
  by (simp add: minimal_file_def map_add_def)

lemma minimal_file_projectName:
  "parse_projectName (JObj (minimal_file @ extra)) = Inr ''test-project''"
  using parse_projectName_string [OF minimal_file_props(1), of extra]
  by (simp add: trim_test_values)

lemma minimal_file_account:
  "parse_account (JObj (minimal_file @ extra)) =
     Inr \<lparr>id' = ''123456789012'', region = ''us-west-2'', prodLike = False, isAdc = False\<rparr>"
  using parse_account_minimal [OF minimal_file_props(2), of "''123456789012''" "''us-west-2''" False extra]
  by (simp add: trim_test_values shapes_test_values)

text \<open>
  C6. A minimal valid configuration, with only \<open>projectName\<close> and an \<open>account\<close> section
  holding \<open>id\<close>, \<open>region\<close> and \<open>prodLike\<close>, loads: the result has \<open>isAdc\<close> false,
  \<open>deployIntegrationTests\<close> true and no \<open>networkConfig\<close>. Whenever \<open>account.isAdc\<close> is
  omitted and the load succeeds, \<open>isAdc\<close> is false in the result.
\<close>

theorem minimal_configuration_defaults:
  "(dom (map_of kvs) = {''projectName'', ''account''}
      \<and> map_of kvs ''projectName'' = Some (JStr pn)
      \<and> map_of kvs ''account'' = Some (JObj akvs)
      \<and> dom (map_of akvs) = {''id'', ''region'', ''prodLike''}
      \<and> map_of akvs ''id'' = Some (JStr i)
      \<and> map_of akvs ''region'' = Some (JStr rg)
      \<and> map_of akvs ''prodLike'' = Some (JBool b)
      \<and> trim pn \<noteq> [] \<and> account_id_shape (trim i) \<and> hyphen_segments 2 (trim rg)
    \<longrightarrow> load_parsed (JObj kvs) =
          Inr \<lparr>projectName = trim pn,
               account = \<lparr>id' = trim i, region = trim rg, prodLike = b, isAdc = False\<rparr>,
               networkConfig = None, dataplaneConfig = None, deployIntegrationTests = True,
               testImageryConfig = None, testConfig = None\<rparr>)
   \<and> (get_prop (get_prop cfg ''account'') ''isAdc'' = JUndefined \<and> load_parsed cfg = Inr r
    \<longrightarrow> isAdc (account r) = False)"
proof (intro conjI impI)
  assume "dom (map_of kvs) = {''projectName'', ''account''}
      \<and> map_of kvs ''projectName'' = Some (JStr pn)
      \<and> map_of kvs ''account'' = Some (JObj akvs)
      \<and> dom (map_of akvs) = {''id'', ''region'', ''prodLike''}
      \<and> map_of akvs ''id'' = Some (JStr i)
      \<and> map_of akvs ''region'' = Some (JStr rg)
      \<and> map_of akvs ''prodLike'' = Some (JBool b)
      \<and> trim pn \<noteq> [] \<and> account_id_shape (trim i) \<and> hyphen_segments 2 (trim rg)"
  then show "load_parsed (JObj kvs) =
          Inr \<lparr>projectName = trim pn,
               account = \<lparr>id' = trim i, region = trim rg, prodLike = b, isAdc = False\<rparr>,
               networkConfig = None, dataplaneConfig = None, deployIntegrationTests = True,
               testImageryConfig = None, testConfig = None\<rparr>"
    by (elim conjE) (rule minimal_loads)
next
  assume "get_prop (get_prop cfg ''account'') ''isAdc'' = JUndefined \<and> load_parsed cfg = Inr r"
  then have u: "get_prop (get_prop cfg ''account'') ''isAdc'' = JUndefined"
    and "validate_parsed cfg = Inr r"
    unfolding load_parsed_eq by simp_all
  then obtain acct where "parse_account cfg = Inr acct" "account r = acct"
    unfolding validate_parsed_Inr_iff by auto
  then show "isAdc (account r) = False"
    using parse_account_isAdc_default [OF _ u] by simp
qed

theorem minimal_configuration_witness:
  "load_parsed (JObj minimal_file) =
     Inr \<lparr>projectName = ''test-project'',
          account = \<lparr>id' = ''123456789012'', region = ''us-west-2'', prodLike = False,
                     isAdc = False\<rparr>,
          networkConfig = None, dataplaneConfig = None, deployIntegrationTests = True,
          testImageryConfig = None, testConfig = None\<rparr>
   \<and> get_prop (get_prop (JObj minimal_file) ''account'') ''isAdc'' = JUndefined
   \<and> isAdc (account
        \<lparr>projectName = ''test-project'',
         account = \<lparr>id' = ''123456789012'', region = ''us-west-2'', prodLike = False,
                    isAdc = False\<rparr>,
         networkConfig = None, dataplaneConfig = None, deployIntegrationTests = True,
         testImageryConfig = None, testConfig = None\<rparr>) = False"
proof -
  let ?acct = "[(''id'', JStr ''123456789012''), (''region'', JStr ''us-west-2''),
      (''prodLike'', JBool False)]"
  have h: "dom (map_of minimal_file) = {''projectName'', ''account''}
      \<and> map_of minimal_file ''projectName'' = Some (JStr ''test-project'')
      \<and> map_of minimal_file ''account'' = Some (JObj ?acct)
      \<and> dom (map_of ?acct) = {''id'', ''region'', ''prodLike''}
      \<and> map_of ?acct ''id'' = Some (JStr ''123456789012'')
      \<and> map_of ?acct ''region'' = Some (JStr ''us-west-2'')
      \<and> map_of ?acct ''prodLike'' = Some (JBool False)
      \<and> trim ''test-project'' \<noteq> [] \<and> account_id_shape (trim ''123456789012'')
      \<and> hyphen_segments 2 (trim ''us-west-2'')"
    unfolding trim_test_values
    by (intro conjI) (auto simp: minimal_file_def shapes_test_values)
  have 1: "load_parsed (JObj minimal_file) =
     Inr \<lparr>projectName = ''test-project'',
          account = \<lparr>id' = ''123456789012'', region = ''us-west-2'', prodLike = False,
                     isAdc = False\<rparr>,
          networkConfig = None, dataplaneConfig = None, deployIntegrationTests = True,
          testImageryConfig = None, testConfig = None\<rparr>"
    using minimal_configuration_defaults [where kvs = minimal_file and pn = "''test-project''"
        and akvs = ?acct and i = "''123456789012''" and rg = "''us-west-2''" and b = False,
        THEN conjunct1, THEN mp, OF h]
    unfolding trim_test_values .
  have 2: "get_prop (get_prop (JObj minimal_file) ''account'') ''isAdc'' = JUndefined"
    by (simp add: minimal_file_def)
  from 2 1 have "get_prop (get_prop (JObj minimal_file) ''account'') ''isAdc'' = JUndefined
      \<and> load_parsed (JObj minimal_file) =
     Inr \<lparr>projectName = ''test-project'',
          account = \<lparr>id' = ''123456789012'', region = ''us-west-2'', prodLike = False,
                     isAdc = False\<rparr>,
          networkConfig = None, dataplaneConfig = None, deployIntegrationTests = True,
          testImageryConfig = None, testConfig = None\<rparr>"
    by (rule conjI)
  from minimal_configuration_defaults [THEN conjunct2, THEN mp, OF this] 1 2
  show ?thesis by (intro conjI)
qed

section \<open>The integration-test gate\<close>

lemma gate_closed:
  assumes "get_prop cfg ''deployIntegrationTests'' = JBool False" and "load_parsed cfg = Inr r"
  shows "deployIntegrationTests r = False \<and> testImageryConfig r = None \<and> testConfig r = None"
proof -
  from assms(2) obtain dit where
    d: "validateBooleanField (get_prop cfg ''deployIntegrationTests'')
          ''deployIntegrationTests'' False (Some True) = Inr dit"
    and r: "deployIntegrationTests r = dit" "testImageryConfig r = parse_testImageryConfig cfg dit"
      "testConfig r = parse_testConfig cfg dit"
    unfolding load_parsed_eq validate_parsed_Inr_iff by auto
  from d have "dit = False"
    unfolding assms(1) by (simp add: validateBooleanField_def)
  then show ?thesis
    using r by (simp add: parse_testImageryConfig_def parse_testConfig_def)
qed

text \<open>
  C5. When \<open>deployIntegrationTests\<close> is explicitly false, the configuration returned by
  the loader has neither \<open>testImageryConfig\<close> nor \<open>testConfig\<close>, whatever the file supplied
  under those keys.
\<close>

theorem integration_tests_gate:
  "get_prop cfg ''deployIntegrationTests'' = JBool False \<and> load_parsed cfg = Inr r
   \<longrightarrow> testImageryConfig r = None \<and> testConfig r = None"
  using gate_closed [of cfg r] by blast

theorem integration_tests_gate_witness:
  "get_prop (JObj (minimal_file @
       [(''deployIntegrationTests'', JBool False),
        (''testImageryConfig'', JObj [(''S3_IMAGE_BUCKET_PREFIX'', JStr ''custom-bucket'')]),
        (''testConfig'', JObj [(''BUILD_FROM_SOURCE'', JBool True)])])) ''deployIntegrationTests''
     = JBool False
   \<and> (\<exists>r. load_parsed (JObj (minimal_file @
       [(''deployIntegrationTests'', JBool False),
        (''testImageryConfig'', JObj [(''S3_IMAGE_BUCKET_PREFIX'', JStr ''custom-bucket'')]),
        (''testConfig'', JObj [(''BUILD_FROM_SOURCE'', JBool True)])])) = Inr r
      \<and> testImageryConfig r = None \<and> testConfig r = None)"
proof -
  let ?extra = "[(''deployIntegrationTests'', JBool False),
        (''testImageryConfig'', JObj [(''S3_IMAGE_BUCKET_PREFIX'', JStr ''custom-bucket'')]),
        (''testConfig'', JObj [(''BUILD_FROM_SOURCE'', JBool True)])]"
  let ?cfg = "JObj (minimal_file @ ?extra)"
  have g: "get_prop ?cfg ''deployIntegrationTests'' = JBool False"
    by (simp add: minimal_file_def map_add_def)
  have n: "parse_networkConfig ?cfg = Inr None"
    by (simp add: parse_networkConfig_def minimal_file_def map_add_def)
  have d: "validateBooleanField (get_prop ?cfg ''deployIntegrationTests'')
      ''deployIntegrationTests'' False (Some True) = Inr False"
    unfolding g by (simp add: validateBooleanField_def)
  have "validate_parsed ?cfg =
     Inr \<lparr>projectName = ''test-project'',
          account = \<lparr>id' = ''123456789012'', region = ''us-west-2'', prodLike = False,
                     isAdc = False\<rparr>,
          networkConfig = None,
          dataplaneConfig = parse_dataplaneConfig ?cfg,
          deployIntegrationTests = False,
          testImageryConfig = parse_testImageryConfig ?cfg False,
          testConfig = parse_testConfig ?cfg False\<rparr>"
    using minimal_file_projectName minimal_file_account n d
    by (intro validate_parsed_stages) simp_all
  then obtain r where l: "load_parsed ?cfg = Inr r"
    unfolding load_parsed_eq by blast
  from g l have "get_prop ?cfg ''deployIntegrationTests'' = JBool False \<and> load_parsed ?cfg = Inr r"
    by (rule conjI)
  from integration_tests_gate [THEN mp, OF this] l g show ?thesis by blast
qed

section \<open>Sections that are not objects\<close>

lemma get_prop_delete:
  "get_prop (JObj (AList.delete k kvs)) k' =
     (if k' = k then JUndefined else get_prop (JObj kvs) k')"
  by (simp add: AList.delete_conv')

lemma parse_projectName_cong:
  "get_prop c1 ''projectName'' = get_prop c2 ''projectName'' \<Longrightarrow>
   parse_projectName c1 = parse_projectName c2"
  by (simp add: parse_projectName_def)

lemma parse_account_cong:
  "get_prop c1 ''account'' = get_prop c2 ''account'' \<Longrightarrow> parse_account c1 = parse_account c2"
  by (simp add: parse_account_def)

lemma parse_networkConfig_cong:
  "get_prop c1 ''networkConfig'' = get_prop c2 ''networkConfig'' \<Longrightarrow>
   parse_networkConfig c1 = parse_networkConfig c2"
  by (simp add: parse_networkConfig_def)

lemma parse_dataplaneConfig_cong:
  "get_prop c1 ''dataplaneConfig'' = get_prop c2 ''dataplaneConfig'' \<Longrightarrow>
   parse_dataplaneConfig c1 = parse_dataplaneConfig c2"
  by (simp add: parse_dataplaneConfig_def)

lemma parse_testImageryConfig_cong:
  "get_prop c1 ''testImageryConfig'' = get_prop c2 ''testImageryConfig'' \<Longrightarrow>
   parse_testImageryConfig c1 d = parse_testImageryConfig c2 d"
  by (simp add: parse_testImageryConfig_def)

lemma parse_testConfig_cong:
  "get_prop c1 ''testConfig'' = get_prop c2 ''testConfig'' \<Longrightarrow>
   parse_testConfig c1 d = parse_testConfig c2 d"
  by (simp add: parse_testConfig_def)

lemma not_an_object_cases:
  "not_an_object v \<Longrightarrow> \<not> (truthy v \<and> typeof v = ''object'')"
  by (cases v) (simp_all add: not_an_object_def)

lemma non_object_sections:
  "not_an_object (get_prop c ''networkConfig'') \<Longrightarrow> parse_networkConfig c = Inr None"
  "not_an_object (get_prop c ''dataplaneConfig'') \<Longrightarrow> parse_dataplaneConfig c = None"
  "not_an_object (get_prop c ''testImageryConfig'') \<Longrightarrow> parse_testImageryConfig c d = None"
  "not_an_object (get_prop c ''testConfig'') \<Longrightarrow> parse_testConfig c d = None"
  using not_an_object_cases
  by (auto simp: parse_networkConfig_def parse_dataplaneConfig_def
      parse_testImageryConfig_def parse_testConfig_def)

lemma not_an_object_undefined: "not_an_object JUndefined"
  by (simp add: not_an_object_def)

lemma validate_parsed_cong:
  assumes "truthy c1 = truthy c2" and "typeof c1 = typeof c2"
    and "parse_projectName c1 = parse_projectName c2"
    and "parse_account c1 = parse_account c2"
    and "parse_networkConfig c1 = parse_networkConfig c2"
    and "get_prop c1 ''deployIntegrationTests'' = get_prop c2 ''deployIntegrationTests''"
    and "parse_dataplaneConfig c1 = parse_dataplaneConfig c2"
    and "\<And>d. parse_testImageryConfig c1 d = parse_testImageryConfig c2 d"
    and "\<And>d. parse_testConfig c1 d = parse_testConfig c2 d"
  shows "validate_parsed c1 = validate_parsed c2"
  unfolding validate_parsed_def Let_def assms ..

lemma ignored_section:
  assumes "k \<in> {''networkConfig'', ''dataplaneConfig'', ''testImageryConfig'', ''testConfig''}"
    and "not_an_object (get_prop (JObj kvs) k)"
  shows "validate_parsed (JObj kvs) = validate_parsed (JObj (AList.delete k kvs))"
proof (rule validate_parsed_cong)
  let ?c = "JObj kvs" and ?d = "JObj (AList.delete k kvs)"
  have k: "k \<noteq> ''projectName''" "k \<noteq> ''account''" "k \<noteq> ''deployIntegrationTests''"
    using assms(1) by auto
  show "truthy ?c = truthy ?d" "typeof ?c = typeof ?d" by simp_all
  show "parse_projectName ?c = parse_projectName ?d"
    using k by (intro parse_projectName_cong) (simp add: AList.delete_conv')
  show "parse_account ?c = parse_account ?d"
    using k by (intro parse_account_cong) (simp add: AList.delete_conv')
  show "get_prop ?c ''deployIntegrationTests'' = get_prop ?d ''deployIntegrationTests''"
    using k by (simp add: AList.delete_conv')
  show "parse_networkConfig ?c = parse_networkConfig ?d"
  proof (cases "k = ''networkConfig''")
    case True
    have "not_an_object (get_prop ?d ''networkConfig'')"
      unfolding get_prop_delete True by (simp add: not_an_object_undefined)
    then show ?thesis using assms(2) unfolding True by (simp only: non_object_sections)
  next
    case False
    then show ?thesis by (intro parse_networkConfig_cong) (simp add: AList.delete_conv')
  qed
  show "parse_dataplaneConfig ?c = parse_dataplaneConfig ?d"
  proof (cases "k = ''dataplaneConfig''")
    case True
    have "not_an_object (get_prop ?d ''dataplaneConfig'')"
      unfolding get_prop_delete True by (simp add: not_an_object_undefined)
    then show ?thesis using assms(2) unfolding True by (simp only: non_object_sections)
  next
    case False
    then show ?thesis by (intro parse_dataplaneConfig_cong) (simp add: AList.delete_conv')
  qed
  show "parse_testImageryConfig ?c d = parse_testImageryConfig ?d d" for d
  proof (cases "k = ''testImageryConfig''")
    case True
    have "not_an_object (get_prop ?d ''testImageryConfig'')"
      unfolding get_prop_delete True by (simp add: not_an_object_undefined)
    then show ?thesis using assms(2) unfolding True by (simp only: non_object_sections)
  next
    case False
    then show ?thesis by (intro parse_testImageryConfig_cong) (simp add: AList.delete_conv')
  qed
  show "parse_testConfig ?c d = parse_testConfig ?d d" for d
  proof (cases "k = ''testConfig''")
    case True
    have "not_an_object (get_prop ?d ''testConfig'')"
      unfolding get_prop_delete True by (simp add: not_an_object_undefined)
    then show ?thesis using assms(2) unfolding True by (simp only: non_object_sections)
  next
    case False
    then show ?thesis by (intro parse_testConfig_cong) (simp add: AList.delete_conv')
  qed
qed

lemma ignored_section_absent:
  assumes "validate_parsed c = Inr r"
  shows "not_an_object (get_prop c ''networkConfig'') \<Longrightarrow> networkConfig r = None"
    "not_an_object (get_prop c ''dataplaneConfig'') \<Longrightarrow> dataplaneConfig r = None"
    "not_an_object (get_prop c ''testImageryConfig'') \<Longrightarrow> testImageryConfig r = None"
    "not_an_object (get_prop c ''testConfig'') \<Longrightarrow> testConfig r = None"
  using assms unfolding validate_parsed_Inr_iff
  by (auto simp: non_object_sections)

lemma minimal_file_loads:
  "load_parsed (JObj minimal_file) =
     Inr \<lparr>projectName = ''test-project'',
          account = \<lparr>id' = ''123456789012'', region = ''us-west-2'', prodLike = False,
                     isAdc = False\<rparr>,
          networkConfig = None, dataplaneConfig = None, deployIntegrationTests = True,
          testImageryConfig = None, testConfig = None\<rparr>"
  using minimal_loads [of minimal_file "''test-project''"
      "[(''id'', JStr ''123456789012''), (''region'', JStr ''us-west-2''), (''prodLike'', JBool False)]"
      "''123456789012''" "''us-west-2''" False]
  unfolding trim_test_values
  by (auto simp: minimal_file_def shapes_test_values)

lemma delete_added_section:
  "k \<noteq> ''projectName'' \<Longrightarrow> k \<noteq> ''account'' \<Longrightarrow>
   AList.delete k (minimal_file @ [(k, v)]) = minimal_file"
  by (simp add: minimal_file_def AList.delete_eq)

text \<open>
  C9. When one of the top-level keys \<open>networkConfig\<close>, \<open>dataplaneConfig\<close>,
  \<open>testImageryConfig\<close>, \<open>testConfig\<close> holds a value that is not an object, the loader
  behaves as if the key were not there: the load gives the same result as for the file
  without the key, and in a returned configuration the field of that key is absent.
\<close>

theorem non_object_section_ignored:
  "k \<in> {''networkConfig'', ''dataplaneConfig'', ''testImageryConfig'', ''testConfig''}
     \<and> not_an_object (get_prop (JObj kvs) k)
   \<longrightarrow> load_parsed (JObj kvs) = load_parsed (JObj (AList.delete k kvs))
     \<and> (load_parsed (JObj kvs) = Inr r \<longrightarrow>
          (k = ''networkConfig'' \<longrightarrow> networkConfig r = None)
          \<and> (k = ''dataplaneConfig'' \<longrightarrow> dataplaneConfig r = None)
          \<and> (k = ''testImageryConfig'' \<longrightarrow> testImageryConfig r = None)
          \<and> (k = ''testConfig'' \<longrightarrow> testConfig r = None))"
proof (intro impI conjI; elim conjE)
  assume k: "k \<in> {''networkConfig'', ''dataplaneConfig'', ''testImageryConfig'', ''testConfig''}"
    and n: "not_an_object (get_prop (JObj kvs) k)"
  show "load_parsed (JObj kvs) = load_parsed (JObj (AList.delete k kvs))"
    unfolding load_parsed_eq using k n by (rule ignored_section)
  assume "load_parsed (JObj kvs) = Inr r"
  then have r: "validate_parsed (JObj kvs) = Inr r" unfolding load_parsed_eq .
  show "networkConfig r = None" if "k = ''networkConfig''"
    using ignored_section_absent(1) [OF r] n unfolding that by blast
  show "dataplaneConfig r = None" if "k = ''dataplaneConfig''"
    using ignored_section_absent(2) [OF r] n unfolding that by blast
  show "testImageryConfig r = None" if "k = ''testImageryConfig''"
    using ignored_section_absent(3) [OF r] n unfolding that by blast
  show "testConfig r = None" if "k = ''testConfig''"
    using ignored_section_absent(4) [OF r] n unfolding that by blast
qed

theorem non_object_section_witness:
  "get_prop (with_section ''networkConfig'' (JStr ''not-an-object'')) ''networkConfig''
     = JStr ''not-an-object''
   \<and> not_an_object (JStr ''not-an-object'')
   \<and> load_parsed (with_section ''networkConfig'' (JStr ''not-an-object''))
     = load_parsed (JObj minimal_file)
   \<and> (\<exists>r. load_parsed (with_section ''networkConfig'' (JStr ''not-an-object'')) = Inr r
        \<and> networkConfig r = None)"
proof -
  let ?kvs = "minimal_file @ [(''networkConfig'', JStr ''not-an-object'')]"
  have g: "get_prop (JObj ?kvs) ''networkConfig'' = JStr ''not-an-object''"
    by (simp add: minimal_file_def map_add_def)
  have o: "not_an_object (JStr ''not-an-object'')"
    by (simp add: not_an_object_def)
  have "''networkConfig'' \<in> {''networkConfig'', ''dataplaneConfig'', ''testImageryConfig'', ''testConfig''}
      \<and> not_an_object (get_prop (JObj ?kvs) ''networkConfig'')"
    unfolding g using o by simp
  note T = non_object_section_ignored [THEN mp, OF this]
  have d: "AList.delete ''networkConfig'' ?kvs = minimal_file"
    by (rule delete_added_section) simp_all
  have e: "load_parsed (JObj ?kvs) = load_parsed (JObj minimal_file)"
    using T [THEN conjunct1] unfolding d .
  then obtain r where r: "load_parsed (JObj ?kvs) = Inr r"
    unfolding minimal_file_loads by blast
  then have "networkConfig r = None"
    using T [of r, THEN conjunct2] by blast
  with g o e r show ?thesis unfolding with_section_def by blast
qed

section \<open>Repeated loads\<close>

lemma load_result_of_file:
  "fst (loadDeploymentConfig JSON_parse path w) =
     (case deployment_json w of
        Missing \<Rightarrow>
          Inl (DeploymentConfigError
             (''Missing deployment.json file at '' @ path
               @ ''. Please create it by copying deployment.json.example'') None)
      | Unreadable msg \<Rightarrow>
          Inl (DeploymentConfigError (''Failed to read deployment.json: '' @ msg) None)
      | Content rawContent \<Rightarrow>
          (case JSON_parse rawContent of
             Inl msg \<Rightarrow>
               Inl (DeploymentConfigError (''Invalid JSON format in deployment.json: '' @ msg) None)
           | Inr parsed \<Rightarrow> validate_parsed parsed))"
  unfolding loadDeploymentConfig_def
  by (simp split: file_state.split sum.split)

lemma load_keeps_file:
  "deployment_json (snd (loadDeploymentConfig JSON_parse path w)) = deployment_json w"
  unfolding loadDeploymentConfig_def
  by (simp split: file_state.split sum.split)

lemma load_same_file:
  "deployment_json w1 = deployment_json w2 \<Longrightarrow>
   fst (loadDeploymentConfig JSON_parse path w1) = fst (loadDeploymentConfig JSON_parse path w2)"
  unfolding load_result_of_file by simp

lemma loadDeploymentConfig_parsed:
  "deployment_json w = Content rawContent \<Longrightarrow> JSON_parse rawContent = Inr parsed \<Longrightarrow>
   fst (loadDeploymentConfig JSON_parse path w) = load_parsed parsed"
  unfolding load_result_of_file load_parsed_eq by simp

text \<open>
  C8. The result of the loader is a function of the content of \<open>deployment.json\<close> alone:
  a load leaves the file as it is, two loads that find the same file state give equal
  results whatever else differs, and so a second load right after a first one returns
  the same result.
\<close>

theorem loader_deterministic:
  "deployment_json (snd (loadDeploymentConfig JSON_parse path w)) = deployment_json w
   \<and> (deployment_json w1 = deployment_json w2 \<longrightarrow>
        fst (loadDeploymentConfig JSON_parse path w1) = fst (loadDeploymentConfig JSON_parse path w2))
   \<and> fst (loadDeploymentConfig JSON_parse path (snd (loadDeploymentConfig JSON_parse path w)))
        = fst (loadDeploymentConfig JSON_parse path w)"
  using load_keeps_file [of JSON_parse path w] load_same_file [of w1 w2 JSON_parse path]
    load_same_file [OF load_keeps_file, of JSON_parse path JSON_parse path w]
  by blast

theorem loader_deterministic_witness:
  "deployment_json \<lparr>deployment_json = Content ''{}'', console = []\<rparr>
     = deployment_json \<lparr>deployment_json = Content ''{}'', console = [''an earlier line'']\<rparr>
   \<and> fst (loadDeploymentConfig (\<lambda>text. Inr (JObj minimal_file)) ''deployment.json''
          \<lparr>deployment_json = Content ''{}'', console = []\<rparr>)
     = fst (loadDeploymentConfig (\<lambda>text. Inr (JObj minimal_file)) ''deployment.json''
          \<lparr>deployment_json = Content ''{}'', console = [''an earlier line'']\<rparr>)"
proof -
  have h: "deployment_json \<lparr>deployment_json = Content ''{}'', console = []\<rparr>
     = deployment_json \<lparr>deployment_json = Content ''{}'', console = [''an earlier line'']\<rparr>"
    by simp
  from loader_deterministic [THEN conjunct2, THEN conjunct1, THEN mp, OF h] h
  show ?thesis by (rule conjI [rotated])
qed

section \<open>The network section\<close>

lemma throws_iff: "throws r \<longleftrightarrow> (\<forall>x. r \<noteq> Inr x)"
  by (cases r) simp_all

lemma trim_Nil [simp]: "trim [] = []"
  by (simp add: trim_def)

lemma validateStringField_required:
  "validateStringField v f True = Inr t \<Longrightarrow> \<exists>s. v = JStr s \<and> t = trim s \<and> trim s \<noteq> []"
  by (cases v) (auto simp: validateStringField_def Let_def split: if_splits)

lemma validateStringField_required_truthy:
  "validateStringField v f True = Inr t \<Longrightarrow> truthy v"
  by (drule validateStringField_required) auto

lemma object_of_section: "get_prop cfg k = JObj x \<Longrightarrow> truthy cfg \<and> typeof cfg = ''object''"
  by (cases cfg) simp_all

lemma identifier_shape_not_Nil: "identifier_shape p t \<Longrightarrow> t \<noteq> []"
  by (auto simp: identifier_shape_def)

lemma valid_identifier_value_string:
  "valid_identifier_value p v \<Longrightarrow> \<exists>s. v = JStr s \<and> identifier_shape p (trim s) \<and> s \<noteq> []"
  by (cases v) (auto simp: valid_identifier_value_def dest: identifier_shape_not_Nil)

text \<open>The four steps of the network block, as \<open>parse_networkConfig\<close> runs them in order.\<close>

lemma parse_networkConfig_object:
  assumes "get_prop cfg ''networkConfig'' = JObj nkvs"
  shows "parse_networkConfig cfg =
     and_then
       (if get_prop (JObj nkvs) ''VPC_ID'' \<noteq> JUndefined then
          and_then (and_then (validateStringField (get_prop (JObj nkvs) ''VPC_ID'')
                                ''networkConfig.VPC_ID'' True) validateVpcId) (\<lambda>_. Inr ())
        else Inr ()) (\<lambda>_.
     and_then
       (if get_prop (JObj nkvs) ''TARGET_SUBNETS'' \<noteq> JUndefined then
          (if \<not> isArray (get_prop (JObj nkvs) ''TARGET_SUBNETS'') then
             Inl (DeploymentConfigError
               (''Field '' @ [CHR 0x27] @ ''networkConfig.TARGET_SUBNETS'' @ [CHR 0x27]
                 @ '' must be an array'') (Some ''networkConfig.TARGET_SUBNETS''))
           else validate_subnets (array_elements (get_prop (JObj nkvs) ''TARGET_SUBNETS'')))
        else Inr ()) (\<lambda>_.
     and_then
       (if get_prop (JObj nkvs) ''SECURITY_GROUP_ID'' \<noteq> JUndefined then
          and_then (and_then (validateStringField (get_prop (JObj nkvs) ''SECURITY_GROUP_ID'')
                                ''networkConfig.SECURITY_GROUP_ID'' True)
                      validateSecurityGroupId) (\<lambda>_. Inr ())
        else Inr ()) (\<lambda>_.
     if truthy (get_prop (JObj nkvs) ''VPC_ID'')
        \<and> (\<not> truthy (get_prop (JObj nkvs) ''TARGET_SUBNETS'')
            \<or> \<not> isArray (get_prop (JObj nkvs) ''TARGET_SUBNETS'')
            \<or> array_length (get_prop (JObj nkvs) ''TARGET_SUBNETS'') = 0)
     then Inl (DeploymentConfigError subnets_required_msg (Some ''networkConfig.TARGET_SUBNETS''))
     else Inr (Some (NetworkConfig (JObj nkvs))))))"
  unfolding parse_networkConfig_def Let_def assms
  by (simp del: get_prop.simps)

lemma vpc_step_truthy:
  assumes "and_then (and_then (validateStringField v f True) validateVpcId) (\<lambda>_. Inr ()) = Inr u"
  shows "truthy v"
  using assms by (auto simp: and_then_Inr_iff dest: validateStringField_required_truthy)

lemma network_block_throws:
  assumes nc: "get_prop cfg ''networkConfig'' = JObj nkvs"
    and vpc: "get_prop (JObj nkvs) ''VPC_ID'' \<noteq> JUndefined"
    and ts: "get_prop (JObj nkvs) ''TARGET_SUBNETS'' = JUndefined
       \<or> \<not> isArray (get_prop (JObj nkvs) ''TARGET_SUBNETS'')
       \<or> get_prop (JObj nkvs) ''TARGET_SUBNETS'' = JArr []"
  shows "throws (parse_networkConfig cfg)"
proof -
  define V where "V = get_prop (JObj nkvs) ''VPC_ID''"
  define T where "T = get_prop (JObj nkvs) ''TARGET_SUBNETS''"
  define S where "S = get_prop (JObj nkvs) ''SECURITY_GROUP_ID''"
  define vstep where "vstep =
    and_then (and_then (validateStringField V ''networkConfig.VPC_ID'' True) validateVpcId) (\<lambda>_. Inr ())"
  define sstep where "sstep = (if S \<noteq> JUndefined then
          and_then (and_then (validateStringField S ''networkConfig.SECURITY_GROUP_ID'' True)
                      validateSecurityGroupId) (\<lambda>_. Inr ())
        else Inr ())"
  have T: "T = JUndefined \<or> \<not> isArray T \<or> T = JArr []" using ts unfolding T_def .
  have weak: "\<not> truthy T \<or> \<not> isArray T \<or> array_length T = 0"
    using T by (auto simp: array_length_def)
  have P: "parse_networkConfig cfg =
     and_then vstep (\<lambda>_.
     and_then
       (if T \<noteq> JUndefined then
          (if \<not> isArray T then
             Inl (DeploymentConfigError
               (''Field '' @ [CHR 0x27] @ ''networkConfig.TARGET_SUBNETS'' @ [CHR 0x27]
                 @ '' must be an array'') (Some ''networkConfig.TARGET_SUBNETS''))
           else validate_subnets (array_elements T))
        else Inr ()) (\<lambda>_.
     and_then sstep (\<lambda>_.
     if truthy V \<and> (\<not> truthy T \<or> \<not> isArray T \<or> array_length T = 0)
     then Inl (DeploymentConfigError subnets_required_msg (Some ''networkConfig.TARGET_SUBNETS''))
     else Inr (Some (NetworkConfig (JObj nkvs))))))"
    unfolding parse_networkConfig_object [OF nc] V_def T_def S_def vstep_def sstep_def
    using vpc by (simp del: get_prop.simps)
  show ?thesis
  proof (cases vstep)
    case (Inl e)
    then show ?thesis unfolding P by simp
  next
    case (Inr u)
    then have tv: "truthy V" unfolding vstep_def by (rule vpc_step_truthy)
    show ?thesis
    proof (cases sstep)
      case (Inl e)
      then show ?thesis unfolding P Inr
        by (cases "if T \<noteq> JUndefined then
          (if \<not> isArray T then
             Inl (DeploymentConfigError
               (''Field '' @ [CHR 0x27] @ ''networkConfig.TARGET_SUBNETS'' @ [CHR 0x27]
                 @ '' must be an array'') (Some ''networkConfig.TARGET_SUBNETS''))
           else validate_subnets (array_elements T))
        else Inr ()") simp_all
    next
      case s: (Inr u')
      show ?thesis unfolding P Inr s using tv weak
        by (cases "if T \<noteq> JUndefined then
          (if \<not> isArray T then
             Inl (DeploymentConfigError
               (''Field '' @ [CHR 0x27] @ ''networkConfig.TARGET_SUBNETS'' @ [CHR 0x27]
                 @ '' must be an array'') (Some ''networkConfig.TARGET_SUBNETS''))
           else validate_subnets (array_elements T))
        else Inr ()") simp_all
    qed
  qed
qed

lemma validate_parsed_network_throws:
  "throws (parse_networkConfig cfg) \<Longrightarrow> throws (validate_parsed cfg)"
  unfolding throws_iff validate_parsed_Inr_iff by blast


lemma vpc_step_valid:
  assumes "valid_identifier_value ''vpc-'' v"
  shows "and_then (and_then (validateStringField v f True) validateVpcId) (\<lambda>_. Inr ()) = Inr ()"
    and "truthy v" and "v \<noteq> JUndefined"
proof -
  from assms obtain s where s: "v = JStr s" "identifier_shape ''vpc-'' (trim s)" "s \<noteq> []"
    by (auto dest: valid_identifier_value_string)
  from s(2) have "trim s \<noteq> []" by (rule identifier_shape_not_Nil)
  then show "and_then (and_then (validateStringField v f True) validateVpcId) (\<lambda>_. Inr ()) = Inr ()"
    unfolding s(1) by (simp add: validateStringField_string validateVpcId_ok [OF s(2)])
  show "truthy v" "v \<noteq> JUndefined" unfolding s(1) using s(3) by simp_all
qed

lemma sg_step_valid:
  assumes "v = JUndefined \<or> valid_identifier_value ''sg-'' v"
  shows "(if v \<noteq> JUndefined then
            and_then (and_then (validateStringField v f True) validateSecurityGroupId) (\<lambda>_. Inr ())
          else Inr ()) = Inr ()"
proof (cases "v = JUndefined")
  case True
  then show ?thesis by simp
next
  case False
  with assms obtain s where s: "v = JStr s" "identifier_shape ''sg-'' (trim s)"
    by (auto dest: valid_identifier_value_string)
  from s(2) have "trim s \<noteq> []" by (rule identifier_shape_not_Nil)
  then show ?thesis
    unfolding s(1) by (simp add: validateStringField_string validateSecurityGroupId_ok [OF s(2)])
qed

lemma network_block_not_array:
  assumes nc: "get_prop cfg ''networkConfig'' = JObj nkvs"
    and vpc: "valid_identifier_value ''vpc-'' (get_prop (JObj nkvs) ''VPC_ID'')"
    and ts: "get_prop (JObj nkvs) ''TARGET_SUBNETS'' \<noteq> JUndefined"
      "\<not> isArray (get_prop (JObj nkvs) ''TARGET_SUBNETS'')"
  shows "parse_networkConfig cfg =
     Inl (DeploymentConfigError
       (''Field '' @ [CHR 0x27] @ ''networkConfig.TARGET_SUBNETS'' @ [CHR 0x27]
         @ '' must be an array'') (Some ''networkConfig.TARGET_SUBNETS''))"
  unfolding parse_networkConfig_object [OF nc]
  using vpc_step_valid [OF vpc] ts by (simp del: get_prop.simps)

lemma network_block_missing:
  assumes nc: "get_prop cfg ''networkConfig'' = JObj nkvs"
    and vpc: "valid_identifier_value ''vpc-'' (get_prop (JObj nkvs) ''VPC_ID'')"
    and ts: "get_prop (JObj nkvs) ''TARGET_SUBNETS'' = JUndefined
       \<or> get_prop (JObj nkvs) ''TARGET_SUBNETS'' = JArr []"
    and sg: "get_prop (JObj nkvs) ''SECURITY_GROUP_ID'' = JUndefined
       \<or> valid_identifier_value ''sg-'' (get_prop (JObj nkvs) ''SECURITY_GROUP_ID'')"
  shows "parse_networkConfig cfg =
     Inl (DeploymentConfigError subnets_required_msg (Some ''networkConfig.TARGET_SUBNETS''))"
proof -
  define T where "T = get_prop (JObj nkvs) ''TARGET_SUBNETS''"
  have T: "T = JUndefined \<or> T = JArr []" using ts unfolding T_def .
  then have tstep: "(if T \<noteq> JUndefined then
          (if \<not> isArray T then
             Inl (DeploymentConfigError
               (''Field '' @ [CHR 0x27] @ ''networkConfig.TARGET_SUBNETS'' @ [CHR 0x27]
                 @ '' must be an array'') (Some ''networkConfig.TARGET_SUBNETS''))
           else validate_subnets (array_elements T))
        else Inr ()) = Inr ()"
    by (auto simp: array_elements_def)
  have weak: "\<not> truthy T \<or> \<not> isArray T \<or> array_length T = 0"
    using T by (auto simp: array_length_def)
  show ?thesis
    unfolding parse_networkConfig_object [OF nc] T_def [symmetric] tstep
    using vpc_step_valid [OF vpc] sg_step_valid [OF sg] weak
    by (simp del: get_prop.simps)
qed

lemma validate_parsed_network_error:
  assumes "get_prop cfg ''networkConfig'' = JObj nkvs"
    and "\<not> throws (parse_projectName cfg)" and "\<not> throws (parse_account cfg)"
    and "parse_networkConfig cfg = Inl e"
  shows "validate_parsed cfg = Inl e"
proof -
  from assms(2) obtain pn where "parse_projectName cfg = Inr pn"
    by (cases "parse_projectName cfg") simp_all
  moreover from assms(3) obtain a where "parse_account cfg = Inr a"
    by (cases "parse_account cfg") simp_all
  ultimately show ?thesis
    unfolding validate_parsed_def Let_def
    using object_of_section [OF assms(1)] assms(4) by simp
qed

lemma target_subnets_messages:
  "js_includes (''Field '' @ [CHR 0x27] @ ''networkConfig.TARGET_SUBNETS'' @ [CHR 0x27]
       @ '' must be an array'') ''TARGET_SUBNETS''"
  "js_includes subnets_required_msg ''TARGET_SUBNETS''"
  "js_includes subnets_required_msg ''TARGET_SUBNETS must also be specified''"
  by (simp_all add: subnets_required_msg_def)

lemma validateVpcId_bad:
  "\<not> identifier_shape ''vpc-'' s \<Longrightarrow>
   validateVpcId s = Inl (DeploymentConfigError
          (''Invalid VPC ID format: '' @ [CHR 0x27] @ s @ [CHR 0x27]
            @ ''. Must start with '' @ [CHR 0x27] @ ''vpc-'' @ [CHR 0x27]
            @ '' followed by 8 or 17 hexadecimal characters.'')
          (Some ''config.targetVpcId''))"
  by (simp add: validateVpcId_def vpcId_pattern_def test_identifier)

lemma validateSecurityGroupId_bad:
  "\<not> identifier_shape ''sg-'' s \<Longrightarrow>
   validateSecurityGroupId s = Inl (DeploymentConfigError
          (''Invalid security group ID format: '' @ [CHR 0x27] @ s @ [CHR 0x27]
            @ ''. Must start with '' @ [CHR 0x27] @ ''sg-'' @ [CHR 0x27]
            @ '' followed by 8 or 17 hexadecimal characters.'')
          (Some ''vpcConfig.securityGroupId''))"
  by (simp add: validateSecurityGroupId_def securityGroupId_pattern_def test_identifier)

lemma with_section_props:
  "get_prop (with_section ''networkConfig'' v) ''networkConfig'' = v"
  "\<not> throws (parse_projectName (with_section k v))"
  "\<not> throws (parse_account (with_section k v))"
proof -
  show "get_prop (with_section ''networkConfig'' v) ''networkConfig'' = v"
    unfolding with_section_def by (simp add: minimal_file_def map_add_def)
  show "\<not> throws (parse_projectName (with_section k v))"
    unfolding with_section_def minimal_file_projectName by simp
  show "\<not> throws (parse_account (with_section k v))"
    unfolding with_section_def minimal_file_account by simp
qed

lemma trim_identifiers:
  "trim ''invalid-vpc-id'' = ''invalid-vpc-id''"
  "trim ''invalid-sg-id'' = ''invalid-sg-id''"
  "trim ''vpc-12345678'' = ''vpc-12345678''"
  by (simp_all add: trim_def is_whitespace_def)

lemma shapes_identifiers:
  "\<not> identifier_shape ''vpc-'' ''invalid-vpc-id''"
  "\<not> identifier_shape ''sg-'' ''invalid-sg-id''"
  "identifier_shape ''vpc-'' ''vpc-12345678''"
  by (simp_all add: identifier_shape_def is_lower_hex_def)

lemma valid_vpc_12345678: "valid_identifier_value ''vpc-'' (JStr ''vpc-12345678'')"
  by (simp add: valid_identifier_value_def trim_identifiers shapes_identifiers)

lemma load_invalid_vpc:
  "load_parsed (with_section ''networkConfig'' (JObj [(''VPC_ID'', JStr ''invalid-vpc-id'')])) =
     Inl (DeploymentConfigError
          (''Invalid VPC ID format: '' @ [CHR 0x27] @ ''invalid-vpc-id'' @ [CHR 0x27]
            @ ''. Must start with '' @ [CHR 0x27] @ ''vpc-'' @ [CHR 0x27]
            @ '' followed by 8 or 17 hexadecimal characters.'')
          (Some ''config.targetVpcId''))"
  unfolding load_parsed_eq
proof (rule validate_parsed_network_error [OF with_section_props])
  show "parse_networkConfig (with_section ''networkConfig'' (JObj [(''VPC_ID'', JStr ''invalid-vpc-id'')])) =
     Inl (DeploymentConfigError
          (''Invalid VPC ID format: '' @ [CHR 0x27] @ ''invalid-vpc-id'' @ [CHR 0x27]
            @ ''. Must start with '' @ [CHR 0x27] @ ''vpc-'' @ [CHR 0x27]
            @ '' followed by 8 or 17 hexadecimal characters.'')
          (Some ''config.targetVpcId''))"
    unfolding parse_networkConfig_object [OF with_section_props(1)]
    by (simp add: validateStringField_string trim_identifiers
        validateVpcId_bad [OF shapes_identifiers(1)])
qed

lemma load_invalid_sg:
  "load_parsed (with_section ''networkConfig''
       (JObj [(''VPC_ID'', JStr ''vpc-12345678''), (''SECURITY_GROUP_ID'', JStr ''invalid-sg-id'')])) =
     Inl (DeploymentConfigError
          (''Invalid security group ID format: '' @ [CHR 0x27] @ ''invalid-sg-id'' @ [CHR 0x27]
            @ ''. Must start with '' @ [CHR 0x27] @ ''sg-'' @ [CHR 0x27]
            @ '' followed by 8 or 17 hexadecimal characters.'')
          (Some ''vpcConfig.securityGroupId''))"
  unfolding load_parsed_eq
proof (rule validate_parsed_network_error [OF with_section_props])
  show "parse_networkConfig (with_section ''networkConfig''
       (JObj [(''VPC_ID'', JStr ''vpc-12345678''), (''SECURITY_GROUP_ID'', JStr ''invalid-sg-id'')])) =
     Inl (DeploymentConfigError
          (''Invalid security group ID format: '' @ [CHR 0x27] @ ''invalid-sg-id'' @ [CHR 0x27]
            @ ''. Must start with '' @ [CHR 0x27] @ ''sg-'' @ [CHR 0x27]
            @ '' followed by 8 or 17 hexadecimal characters.'')
          (Some ''vpcConfig.securityGroupId''))"
    unfolding parse_networkConfig_object [OF with_section_props(1)]
    by (simp add: validateStringField_string trim_identifiers
        validateVpcId_ok [OF shapes_identifiers(3)]
        validateSecurityGroupId_bad [OF shapes_identifiers(2)])
qed

text \<open>
  C1, as stated, fails on two files whose \<open>networkConfig\<close> has \<open>VPC_ID\<close> and no
  \<open>TARGET_SUBNETS\<close>: with an ill-formed \<open>VPC_ID\<close> (a file of the repository's tests), and
  with a valid \<open>VPC_ID\<close> next to an ill-formed \<open>SECURITY_GROUP_ID\<close>. Both loads fail; the
  message of neither mentions \<open>TARGET_SUBNETS\<close>.
\<close>

theorem earlier_error_hides_target_subnets:
  "get_prop (JObj [(''VPC_ID'', JStr ''invalid-vpc-id'')]) ''VPC_ID'' \<noteq> JUndefined
   \<and> get_prop (JObj [(''VPC_ID'', JStr ''invalid-vpc-id'')]) ''TARGET_SUBNETS'' = JUndefined
   \<and> throws (load_parsed (with_section ''networkConfig'' (JObj [(''VPC_ID'', JStr ''invalid-vpc-id'')])))
   \<and> \<not> throws_with (load_parsed (with_section ''networkConfig''
          (JObj [(''VPC_ID'', JStr ''invalid-vpc-id'')]))) ''TARGET_SUBNETS''
   \<and> valid_identifier_value ''vpc-''
        (get_prop (JObj [(''VPC_ID'', JStr ''vpc-12345678''),
                         (''SECURITY_GROUP_ID'', JStr ''invalid-sg-id'')]) ''VPC_ID'')
   \<and> get_prop (JObj [(''VPC_ID'', JStr ''vpc-12345678''),
                     (''SECURITY_GROUP_ID'', JStr ''invalid-sg-id'')]) ''TARGET_SUBNETS'' = JUndefined
   \<and> throws (load_parsed (with_section ''networkConfig''
          (JObj [(''VPC_ID'', JStr ''vpc-12345678''), (''SECURITY_GROUP_ID'', JStr ''invalid-sg-id'')])))
   \<and> \<not> throws_with (load_parsed (with_section ''networkConfig''
          (JObj [(''VPC_ID'', JStr ''vpc-12345678''), (''SECURITY_GROUP_ID'', JStr ''invalid-sg-id'')])))
        ''TARGET_SUBNETS''"
  unfolding load_invalid_vpc load_invalid_sg
  by (simp add: valid_vpc_12345678)


lemma network_fails:
  assumes "get_prop cfg ''networkConfig'' = JObj nkvs"
    and "get_prop (JObj nkvs) ''VPC_ID'' \<noteq> JUndefined"
    and "get_prop (JObj nkvs) ''TARGET_SUBNETS'' = JUndefined
       \<or> \<not> isArray (get_prop (JObj nkvs) ''TARGET_SUBNETS'')
       \<or> get_prop (JObj nkvs) ''TARGET_SUBNETS'' = JArr []"
  shows "throws (load_parsed cfg)"
  unfolding load_parsed_eq
  by (rule validate_parsed_network_throws) (rule network_block_throws [OF assms])

lemma network_message:
  assumes nc: "get_prop cfg ''networkConfig'' = JObj nkvs"
    and ts: "get_prop (JObj nkvs) ''TARGET_SUBNETS'' = JUndefined
       \<or> \<not> isArray (get_prop (JObj nkvs) ''TARGET_SUBNETS'')
       \<or> get_prop (JObj nkvs) ''TARGET_SUBNETS'' = JArr []"
    and pre: "\<not> throws (parse_projectName cfg)" "\<not> throws (parse_account cfg)"
    and vpc: "valid_identifier_value ''vpc-'' (get_prop (JObj nkvs) ''VPC_ID'')"
    and sg: "get_prop (JObj nkvs) ''SECURITY_GROUP_ID'' = JUndefined
       \<or> valid_identifier_value ''sg-'' (get_prop (JObj nkvs) ''SECURITY_GROUP_ID'')
       \<or> (get_prop (JObj nkvs) ''TARGET_SUBNETS'' \<noteq> JUndefined
           \<and> \<not> isArray (get_prop (JObj nkvs) ''TARGET_SUBNETS''))"
  shows "throws_with (load_parsed cfg) ''TARGET_SUBNETS''"
    and "get_prop (JObj nkvs) ''TARGET_SUBNETS'' = JUndefined
       \<or> get_prop (JObj nkvs) ''TARGET_SUBNETS'' = JArr []
     \<Longrightarrow> throws_with (load_parsed cfg) ''TARGET_SUBNETS must also be specified''"
proof -
  define T where "T = get_prop (JObj nkvs) ''TARGET_SUBNETS''"
  have missing: "throws_with (load_parsed cfg) ''TARGET_SUBNETS''
      \<and> throws_with (load_parsed cfg) ''TARGET_SUBNETS must also be specified''"
    if t: "T = JUndefined \<or> T = JArr []"
  proof -
    from t have "\<not> (T \<noteq> JUndefined \<and> \<not> isArray T)" by auto
    with sg have "get_prop (JObj nkvs) ''SECURITY_GROUP_ID'' = JUndefined
       \<or> valid_identifier_value ''sg-'' (get_prop (JObj nkvs) ''SECURITY_GROUP_ID'')"
      unfolding T_def by blast
    with nc vpc t have "parse_networkConfig cfg =
        Inl (DeploymentConfigError subnets_required_msg (Some ''networkConfig.TARGET_SUBNETS''))"
      unfolding T_def by (rule network_block_missing)
    with nc pre have "validate_parsed cfg =
        Inl (DeploymentConfigError subnets_required_msg (Some ''networkConfig.TARGET_SUBNETS''))"
      by (rule validate_parsed_network_error)
    then show ?thesis
      unfolding load_parsed_eq by (simp add: target_subnets_messages)
  qed
  have other: "throws_with (load_parsed cfg) ''TARGET_SUBNETS''"
    if t: "T \<noteq> JUndefined" "\<not> isArray T"
  proof -
    from nc vpc t have "parse_networkConfig cfg =
     Inl (DeploymentConfigError
       (''Field '' @ [CHR 0x27] @ ''networkConfig.TARGET_SUBNETS'' @ [CHR 0x27]
         @ '' must be an array'') (Some ''networkConfig.TARGET_SUBNETS''))"
      unfolding T_def by (rule network_block_not_array)
    with nc pre have "validate_parsed cfg =
     Inl (DeploymentConfigError
       (''Field '' @ [CHR 0x27] @ ''networkConfig.TARGET_SUBNETS'' @ [CHR 0x27]
         @ '' must be an array'') (Some ''networkConfig.TARGET_SUBNETS''))"
      by (rule validate_parsed_network_error)
    then show ?thesis
      unfolding load_parsed_eq using target_subnets_messages(1) by simp
  qed
  from ts have "T = JUndefined \<or> T = JArr [] \<or> (T \<noteq> JUndefined \<and> \<not> isArray T)"
    unfolding T_def by blast
  then show "throws_with (load_parsed cfg) ''TARGET_SUBNETS''"
    using missing other by blast
  show "throws_with (load_parsed cfg) ''TARGET_SUBNETS must also be specified''"
    if "get_prop (JObj nkvs) ''TARGET_SUBNETS'' = JUndefined
       \<or> get_prop (JObj nkvs) ''TARGET_SUBNETS'' = JArr []"
    using missing that unfolding T_def by blast
qed

text \<open>
  C1, amended. For every parsed configuration whose \<open>networkConfig\<close> section has a
  \<open>VPC_ID\<close> key while \<open>TARGET_SUBNETS\<close> is absent, empty or not a list, the load fails.
  When the checks that run before are passed (\<open>projectName\<close> and \<open>account\<close> validate,
  \<open>VPC_ID\<close> is a well-formed VPC identifier and, unless \<open>TARGET_SUBNETS\<close> is a
  supplied non-list, \<open>SECURITY_GROUP_ID\<close> is absent or well-formed), the message of the
  error mentions \<open>TARGET_SUBNETS\<close>; with \<open>TARGET_SUBNETS\<close> absent or empty it contains
  \<open>TARGET_SUBNETS must also be specified\<close>.
\<close>

theorem vpc_requires_target_subnets:
  "get_prop cfg ''networkConfig'' = JObj nkvs
     \<and> get_prop (JObj nkvs) ''VPC_ID'' \<noteq> JUndefined
     \<and> (get_prop (JObj nkvs) ''TARGET_SUBNETS'' = JUndefined
         \<or> \<not> isArray (get_prop (JObj nkvs) ''TARGET_SUBNETS'')
         \<or> get_prop (JObj nkvs) ''TARGET_SUBNETS'' = JArr [])
   \<longrightarrow> throws (load_parsed cfg)
     \<and> (\<not> throws (parse_projectName cfg) \<and> \<not> throws (parse_account cfg)
          \<and> valid_identifier_value ''vpc-'' (get_prop (JObj nkvs) ''VPC_ID'')
          \<and> (get_prop (JObj nkvs) ''SECURITY_GROUP_ID'' = JUndefined
              \<or> valid_identifier_value ''sg-'' (get_prop (JObj nkvs) ''SECURITY_GROUP_ID'')
              \<or> (get_prop (JObj nkvs) ''TARGET_SUBNETS'' \<noteq> JUndefined
                  \<and> \<not> isArray (get_prop (JObj nkvs) ''TARGET_SUBNETS'')))
        \<longrightarrow> throws_with (load_parsed cfg) ''TARGET_SUBNETS''
          \<and> (get_prop (JObj nkvs) ''TARGET_SUBNETS'' = JUndefined
                \<or> get_prop (JObj nkvs) ''TARGET_SUBNETS'' = JArr []
              \<longrightarrow> throws_with (load_parsed cfg) ''TARGET_SUBNETS must also be specified''))"
  using network_fails [of cfg nkvs] network_message [of cfg nkvs]
  by blast


theorem vpc_requires_target_subnets_witness:
  "get_prop (JObj [(''VPC_ID'', JStr ''vpc-12345678'')]) ''VPC_ID'' \<noteq> JUndefined
   \<and> get_prop (JObj [(''VPC_ID'', JStr ''vpc-12345678'')]) ''TARGET_SUBNETS'' = JUndefined
   \<and> throws (load_parsed (with_section ''networkConfig'' (JObj [(''VPC_ID'', JStr ''vpc-12345678'')])))
   \<and> throws_with (load_parsed (with_section ''networkConfig''
        (JObj [(''VPC_ID'', JStr ''vpc-12345678'')]))) ''TARGET_SUBNETS''
   \<and> throws_with (load_parsed (with_section ''networkConfig''
        (JObj [(''VPC_ID'', JStr ''vpc-12345678'')]))) ''TARGET_SUBNETS must also be specified''"
proof -
  let ?nkvs = "[(''VPC_ID'', JStr ''vpc-12345678'')]"
  let ?cfg = "with_section ''networkConfig'' (JObj ?nkvs)"
  have v: "get_prop (JObj ?nkvs) ''VPC_ID'' \<noteq> JUndefined"
    and t: "get_prop (JObj ?nkvs) ''TARGET_SUBNETS'' = JUndefined"
    and s: "get_prop (JObj ?nkvs) ''SECURITY_GROUP_ID'' = JUndefined"
    and i: "valid_identifier_value ''vpc-'' (get_prop (JObj ?nkvs) ''VPC_ID'')"
    using valid_vpc_12345678 by simp_all
  have h1: "get_prop ?cfg ''networkConfig'' = JObj ?nkvs
     \<and> get_prop (JObj ?nkvs) ''VPC_ID'' \<noteq> JUndefined
     \<and> (get_prop (JObj ?nkvs) ''TARGET_SUBNETS'' = JUndefined
         \<or> \<not> isArray (get_prop (JObj ?nkvs) ''TARGET_SUBNETS'')
         \<or> get_prop (JObj ?nkvs) ''TARGET_SUBNETS'' = JArr [])"
    using with_section_props(1) v t by (intro conjI disjI1)
  note T = vpc_requires_target_subnets [THEN mp, OF h1]
  have h2: "\<not> throws (parse_projectName ?cfg) \<and> \<not> throws (parse_account ?cfg)
          \<and> valid_identifier_value ''vpc-'' (get_prop (JObj ?nkvs) ''VPC_ID'')
          \<and> (get_prop (JObj ?nkvs) ''SECURITY_GROUP_ID'' = JUndefined
              \<or> valid_identifier_value ''sg-'' (get_prop (JObj ?nkvs) ''SECURITY_GROUP_ID'')
              \<or> (get_prop (JObj ?nkvs) ''TARGET_SUBNETS'' \<noteq> JUndefined
                  \<and> \<not> isArray (get_prop (JObj ?nkvs) ''TARGET_SUBNETS'')))"
    using with_section_props(2,3) i s by (intro conjI disjI1)
  note M = T [THEN conjunct2, THEN mp, OF h2]
  have h3: "get_prop (JObj ?nkvs) ''TARGET_SUBNETS'' = JUndefined
                \<or> get_prop (JObj ?nkvs) ''TARGET_SUBNETS'' = JArr []"
    using t by (rule disjI1)
  from v t T [THEN conjunct1] M [THEN conjunct1] M [THEN conjunct2, THEN mp, OF h3]
  show ?thesis by (intro conjI)
qed

section \<open>What the loader stores\<close>

lemma parse_projectName_stored:
  "parse_projectName cfg = Inr pn \<Longrightarrow> get_prop cfg ''projectName'' = JStr p \<Longrightarrow> pn = trim p"
  by (auto simp: parse_projectName_def and_then_Inr_iff validateStringField_string
      split: if_splits)

lemma validateAccountId_Inr: "validateAccountId s = Inr t \<Longrightarrow> t = s"
  by (simp add: validateAccountId_def split: if_splits)

lemma validateRegion_Inr: "validateRegion s = Inr t \<Longrightarrow> t = s"
  by (simp add: validateRegion_def split: if_splits)

lemma parse_account_stored:
  assumes "parse_account cfg = Inr a"
  shows "get_prop (get_prop cfg ''account'') ''id'' = JStr i \<Longrightarrow> id' a = trim i"
    and "get_prop (get_prop cfg ''account'') ''region'' = JStr rg \<Longrightarrow> region a = trim rg"
proof -
  from assms obtain x y where
    x: "and_then (validateStringField (get_prop (get_prop cfg ''account'') ''id'') ''account.id'' True)
          validateAccountId = Inr x"
    and y: "and_then (validateStringField (get_prop (get_prop cfg ''account'') ''region'')
          ''account.region'' True) validateRegion = Inr y"
    and a: "id' a = x" "region a = y"
    unfolding parse_account_def Let_def
    by (auto simp: and_then_Inr_iff split: if_splits)
  show "id' a = trim i" if "get_prop (get_prop cfg ''account'') ''id'' = JStr i"
    using x a(1) unfolding that
    by (auto simp: and_then_Inr_iff dest!: validateStringField_Inr validateAccountId_Inr)
  show "region a = trim rg" if "get_prop (get_prop cfg ''account'') ''region'' = JStr rg"
    using y a(2) unfolding that
    by (auto simp: and_then_Inr_iff dest!: validateStringField_Inr validateRegion_Inr)
qed

lemma loaded_fields:
  assumes "load_parsed cfg = Inr r"
  shows "get_prop cfg ''projectName'' = JStr p \<Longrightarrow> projectName r = trim p"
    and "get_prop (get_prop cfg ''account'') ''id'' = JStr i \<Longrightarrow> id' (account r) = trim i"
    and "get_prop (get_prop cfg ''account'') ''region'' = JStr rg \<Longrightarrow> region (account r) = trim rg"
proof -
  from assms obtain pn acct where
    s: "parse_projectName cfg = Inr pn" "parse_account cfg = Inr acct"
    and r: "projectName r = pn" "account r = acct"
    unfolding load_parsed_eq validate_parsed_Inr_iff by auto
  show "projectName r = trim p" if "get_prop cfg ''projectName'' = JStr p"
    using parse_projectName_stored [OF s(1) that] r(1) by simp
  show "id' (account r) = trim i" if "get_prop (get_prop cfg ''account'') ''id'' = JStr i"
    using parse_account_stored(1) [OF s(2) that] r(2) by simp
  show "region (account r) = trim rg" if "get_prop (get_prop cfg ''account'') ''region'' = JStr rg"
    using parse_account_stored(2) [OF s(2) that] r(2) by simp
qed

lemma blank_projectName:
  assumes "get_prop cfg ''projectName'' = JStr s" and "list_all is_whitespace s"
  shows "throws_with (load_parsed cfg) ''cannot be empty or contain only whitespace''"
proof -
  have c: "truthy cfg \<and> typeof cfg = ''object''"
    using assms(1) by (cases cfg) simp_all
  have "throws_with (validateStringField (JStr s) ''projectName'' True)
      ''cannot be empty or contain only whitespace''"
    using assms(2) by (rule validateStringField_blank)
  then obtain e where e: "validateStringField (JStr s) ''projectName'' True = Inl e"
    "js_includes (message e) ''cannot be empty or contain only whitespace''"
    by (cases "validateStringField (JStr s) ''projectName'' True") simp_all
  have "validate_parsed cfg = Inl e"
    unfolding validate_parsed_def Let_def parse_projectName_def assms(1) e(1)
    using c by simp
  then show ?thesis unfolding load_parsed_eq using e(2) by simp
qed

text \<open>
  A network section whose only property is named \<open>__proto__\<close> has no \<open>VPC_ID\<close> of its own,
  so nothing is validated; \<open>Object.assign\<close> then makes its value the prototype of the
  instance, and reading \<open>VPC_ID\<close> on the instance finds the inherited value.
\<close>

lemma load_prototype_section:
  "stored_network_field (load_parsed (with_section ''networkConfig''
       (JObj [(''__proto__'', JObj [(''VPC_ID'', JStr ''not-validated'')])]))) ''VPC_ID''
     = JStr ''not-validated''"
proof -
  let ?nc = "JObj [(''__proto__'', JObj [(''VPC_ID'', JStr ''not-validated'')])]"
  let ?cfg = "with_section ''networkConfig'' ?nc"
  have d: "validateBooleanField (get_prop ?cfg ''deployIntegrationTests'')
      ''deployIntegrationTests'' False (Some True) = Inr True"
    unfolding with_section_def
    by (simp add: validateBooleanField_def minimal_file_def map_add_def)
  have n: "parse_networkConfig ?cfg = Inr (Some (NetworkConfig ?nc))"
    unfolding parse_networkConfig_object [OF with_section_props(1)] by simp
  have "validate_parsed ?cfg =
     Inr \<lparr>projectName = ''test-project'',
          account = \<lparr>id' = ''123456789012'', region = ''us-west-2'', prodLike = False,
                     isAdc = False\<rparr>,
          networkConfig = Some (NetworkConfig ?nc),
          dataplaneConfig = parse_dataplaneConfig ?cfg,
          deployIntegrationTests = True,
          testImageryConfig = parse_testImageryConfig ?cfg True,
          testConfig = parse_testConfig ?cfg True\<rparr>"
  proof (rule validate_parsed_stages)
    show "truthy ?cfg" "typeof ?cfg = ''object''" unfolding with_section_def by simp_all
    show "parse_projectName ?cfg = Inr ''test-project''"
      unfolding with_section_def by (rule minimal_file_projectName)
    show "parse_account ?cfg = Inr \<lparr>id' = ''123456789012'', region = ''us-west-2'',
        prodLike = False, isAdc = False\<rparr>"
      unfolding with_section_def by (rule minimal_file_account)
    show "parse_networkConfig ?cfg = Inr (Some (NetworkConfig ?nc))"
      by (rule n)
    show "validateBooleanField (get_prop ?cfg ''deployIntegrationTests'')
      ''deployIntegrationTests'' False (Some True) = Inr True"
      by (rule d)
  qed
  then show ?thesis
    unfolding load_parsed_eq stored_network_field_def
    by (simp add: NetworkConfig_def BaseConfig_def assign_def read_property_def)
qed

lemma trim_padded:
  "trim ''  test-project  '' = ''test-project''"
  "trim '' 123456789012'' = ''123456789012''"
  "trim ''us-west-2 '' = ''us-west-2''"
  "trim '' vpc-12345678'' = ''vpc-12345678''"
  "trim '' subnet-12345678'' = ''subnet-12345678''"
  "trim ''sg-12345678 '' = ''sg-12345678''"
  "trim ''invalid-subnet-id'' = ''invalid-subnet-id''"
  by (simp_all add: trim_def is_whitespace_def)

lemma shapes_padded:
  "identifier_shape ''vpc-'' ''vpc-12345678''"
  "identifier_shape ''subnet-'' ''subnet-12345678''"
  "identifier_shape ''sg-'' ''sg-12345678''"
  "\<not> identifier_shape ''vpc-'' '' vpc-12345678''"
  "\<not> identifier_shape ''subnet-'' '' subnet-12345678''"
  "\<not> identifier_shape ''sg-'' ''sg-12345678 ''"
  "\<not> identifier_shape ''subnet-'' ''invalid-subnet-id''"
  by (simp_all add: identifier_shape_def is_lower_hex_def)

lemma padded_validated:
  "validateStringField (JStr '' vpc-12345678'') ''networkConfig.VPC_ID'' True = Inr ''vpc-12345678''"
  "validateStringField (JStr '' subnet-12345678'') ''networkConfig.TARGET_SUBNETS[]'' True
     = Inr ''subnet-12345678''"
  "validateStringField (JStr ''sg-12345678 '') ''networkConfig.SECURITY_GROUP_ID'' True
     = Inr ''sg-12345678''"
  "validateStringField (JStr ''invalid-subnet-id'') ''networkConfig.TARGET_SUBNETS[]'' True
     = Inr ''invalid-subnet-id''"
  by (simp_all add: validateStringField_string trim_padded)

lemma validateSubnetId_bad:
  "\<not> identifier_shape ''subnet-'' s \<Longrightarrow>
   validateSubnetId s = Inl (DeploymentConfigError
          (''Invalid Subnet ID format: '' @ [CHR 0x27] @ s @ [CHR 0x27]
            @ ''. Must start with '' @ [CHR 0x27] @ ''subnet-'' @ [CHR 0x27]
            @ '' followed by 8 or 17 hexadecimal characters.'')
          (Some ''networkConfig.targetSubnets''))"
  by (simp add: validateSubnetId_def subnetId_pattern_def test_identifier)

lemma padded_file_stages:
  fixes nc :: "(string \<times> jsval) list"
  defines "cfg \<equiv> JObj [(''projectName'', JStr ''  test-project  ''),
       (''account'', JObj [(''id'', JStr '' 123456789012''), (''region'', JStr ''us-west-2 ''),
                           (''prodLike'', JBool False)]),
       (''networkConfig'', JObj nc)]"
  shows "truthy cfg" "typeof cfg = ''object''"
    "parse_projectName cfg = Inr ''test-project''"
    "parse_account cfg = Inr \<lparr>id' = ''123456789012'', region = ''us-west-2'', prodLike = False,
        isAdc = False\<rparr>"
    "get_prop cfg ''networkConfig'' = JObj nc"
    "validateBooleanField (get_prop cfg ''deployIntegrationTests'')
        ''deployIntegrationTests'' False (Some True) = Inr True"
    "parse_dataplaneConfig cfg = None"
    "parse_testImageryConfig cfg True = None"
    "parse_testConfig cfg True = None"
proof -
  show "truthy cfg" "typeof cfg = ''object''" "get_prop cfg ''networkConfig'' = JObj nc"
    unfolding cfg_def by simp_all
  have "parse_projectName cfg = Inr (trim ''  test-project  '')"
    by (rule parse_projectName_string) (simp_all add: cfg_def trim_padded)
  then show "parse_projectName cfg = Inr ''test-project''"
    unfolding trim_padded .
  have "parse_account cfg = Inr \<lparr>id' = trim '' 123456789012'', region = trim ''us-west-2 '',
      prodLike = False, isAdc = False\<rparr>"
    by (rule parse_account_minimal [where akvs = "[(''id'', JStr '' 123456789012''),
          (''region'', JStr ''us-west-2 ''), (''prodLike'', JBool False)]"])
      (simp_all add: cfg_def trim_padded shapes_test_values)
  then show "parse_account cfg = Inr \<lparr>id' = ''123456789012'', region = ''us-west-2'',
      prodLike = False, isAdc = False\<rparr>"
    unfolding trim_padded .
  show "validateBooleanField (get_prop cfg ''deployIntegrationTests'')
        ''deployIntegrationTests'' False (Some True) = Inr True"
    unfolding cfg_def by (simp add: validateBooleanField_def)
  show "parse_dataplaneConfig cfg = None" "parse_testImageryConfig cfg True = None"
    "parse_testConfig cfg True = None"
    unfolding cfg_def
    by (simp_all add: parse_dataplaneConfig_def parse_testImageryConfig_def parse_testConfig_def)
qed

lemma padded_network_instance:
  "NetworkConfig (JObj [(''VPC_ID'', JStr '' vpc-12345678''),
            (''TARGET_SUBNETS'', JArr [JStr '' subnet-12345678'']),
            (''SECURITY_GROUP_ID'', JStr ''sg-12345678 '')]) =
     \<lparr>own_properties =
                 [(''VPC_NAME'', JStr ''tile-server-vpc''),
                  (''SECURITY_GROUP_NAME'', JStr ''tile-server-security-group''),
                  (''VPC_ID'', JStr '' vpc-12345678''),
                  (''TARGET_SUBNETS'', JArr [JStr '' subnet-12345678'']),
                  (''SECURITY_GROUP_ID'', JStr ''sg-12345678 '')],
               replaced_prototype = None\<rparr>"
  by (simp add: NetworkConfig_def BaseConfig_def assign_def)

lemma parse_padded_network:
  assumes "get_prop cfg ''networkConfig'' =
      JObj [(''VPC_ID'', JStr '' vpc-12345678''),
            (''TARGET_SUBNETS'', JArr [JStr '' subnet-12345678'']),
            (''SECURITY_GROUP_ID'', JStr ''sg-12345678 '')]"
  shows "parse_networkConfig cfg =
     Inr (Some \<lparr>own_properties =
                 [(''VPC_NAME'', JStr ''tile-server-vpc''),
                  (''SECURITY_GROUP_NAME'', JStr ''tile-server-security-group''),
                  (''VPC_ID'', JStr '' vpc-12345678''),
                  (''TARGET_SUBNETS'', JArr [JStr '' subnet-12345678'']),
                  (''SECURITY_GROUP_ID'', JStr ''sg-12345678 '')],
               replaced_prototype = None\<rparr>)"
  unfolding parse_networkConfig_object [OF assms] padded_network_instance [symmetric]
  by (simp add: padded_validated validateVpcId_ok [OF shapes_padded(1)]
      validateSubnetId_ok [OF shapes_padded(2)] validateSecurityGroupId_ok [OF shapes_padded(3)]
      array_elements_def array_length_def)

lemma load_padded_file:
  "load_parsed (JObj [(''projectName'', JStr ''  test-project  ''),
       (''account'', JObj [(''id'', JStr '' 123456789012''), (''region'', JStr ''us-west-2 ''),
                           (''prodLike'', JBool False)]),
       (''networkConfig'', JObj [(''VPC_ID'', JStr '' vpc-12345678''),
                                 (''TARGET_SUBNETS'', JArr [JStr '' subnet-12345678'']),
                                 (''SECURITY_GROUP_ID'', JStr ''sg-12345678 '')])]) =
     Inr \<lparr>projectName = ''test-project'',
            account = \<lparr>id' = ''123456789012'', region = ''us-west-2'', prodLike = False,
                       isAdc = False\<rparr>,
            networkConfig = Some
              \<lparr>own_properties =
                 [(''VPC_NAME'', JStr ''tile-server-vpc''),
                  (''SECURITY_GROUP_NAME'', JStr ''tile-server-security-group''),
                  (''VPC_ID'', JStr '' vpc-12345678''),
                  (''TARGET_SUBNETS'', JArr [JStr '' subnet-12345678'']),
                  (''SECURITY_GROUP_ID'', JStr ''sg-12345678 '')],
               replaced_prototype = None\<rparr>,
            dataplaneConfig = None, deployIntegrationTests = True,
            testImageryConfig = None, testConfig = None\<rparr>"
proof -
  note s = padded_file_stages [of "[(''VPC_ID'', JStr '' vpc-12345678''),
            (''TARGET_SUBNETS'', JArr [JStr '' subnet-12345678'']),
            (''SECURITY_GROUP_ID'', JStr ''sg-12345678 '')]"]
  show ?thesis
    unfolding load_parsed_eq
      validate_parsed_stages [OF s(1-4) parse_padded_network [OF s(5)] s(6)] s(7-9) ..
qed

lemma load_bad_subnet:
  "load_parsed (JObj [(''projectName'', JStr ''  test-project  ''),
       (''account'', JObj [(''id'', JStr '' 123456789012''), (''region'', JStr ''us-west-2 ''),
                           (''prodLike'', JBool False)]),
       (''networkConfig'', JObj [(''VPC_ID'', JStr '' vpc-12345678''),
                                 (''TARGET_SUBNETS'', JArr [JStr '' subnet-12345678'',
                                                            JStr ''invalid-subnet-id''])])]) =
     Inl (DeploymentConfigError
            (''Invalid Subnet ID format: '' @ [CHR 0x27] @ ''invalid-subnet-id'' @ [CHR 0x27]
              @ ''. Must start with '' @ [CHR 0x27] @ ''subnet-'' @ [CHR 0x27]
              @ '' followed by 8 or 17 hexadecimal characters.'')
            (Some ''networkConfig.targetSubnets''))"
proof -
  note s = padded_file_stages [of "[(''VPC_ID'', JStr '' vpc-12345678''),
            (''TARGET_SUBNETS'', JArr [JStr '' subnet-12345678'', JStr ''invalid-subnet-id''])]"]
  obtain e where e: "validateSubnetId ''invalid-subnet-id'' = Inl e"
    and e': "e = DeploymentConfigError
            (''Invalid Subnet ID format: '' @ [CHR 0x27] @ ''invalid-subnet-id'' @ [CHR 0x27]
              @ ''. Must start with '' @ [CHR 0x27] @ ''subnet-'' @ [CHR 0x27]
              @ '' followed by 8 or 17 hexadecimal characters.'')
            (Some ''networkConfig.targetSubnets'')"
    using validateSubnetId_bad [OF shapes_padded(7)] by simp
  have "parse_networkConfig (JObj [(''projectName'', JStr ''  test-project  ''),
       (''account'', JObj [(''id'', JStr '' 123456789012''), (''region'', JStr ''us-west-2 ''),
                           (''prodLike'', JBool False)]),
       (''networkConfig'', JObj [(''VPC_ID'', JStr '' vpc-12345678''),
                                 (''TARGET_SUBNETS'', JArr [JStr '' subnet-12345678'',
                                                            JStr ''invalid-subnet-id''])])]) = Inl e"
    unfolding parse_networkConfig_object [OF s(5)]
    by (simp add: padded_validated validateVpcId_ok [OF shapes_padded(1)]
        validateSubnetId_ok [OF shapes_padded(2)] e array_elements_def)
  then have "validate_parsed (JObj [(''projectName'', JStr ''  test-project  ''),
       (''account'', JObj [(''id'', JStr '' 123456789012''), (''region'', JStr ''us-west-2 ''),
                           (''prodLike'', JBool False)]),
       (''networkConfig'', JObj [(''VPC_ID'', JStr '' vpc-12345678''),
                                 (''TARGET_SUBNETS'', JArr [JStr '' subnet-12345678'',
                                                            JStr ''invalid-subnet-id''])])]) = Inl e"
    using s(3,4) by (intro validate_parsed_network_error [OF s(5)]) simp_all
  then show ?thesis
    unfolding load_parsed_eq e' .
qed

text \<open>
  C7. The claim holds on the paths that store what \<open>validateStringField\<close> returns
  (\<open>projectName\<close>, \<open>account.id\<close>, \<open>account.region\<close>), and the loader departs from it on the
  network section: there it validates the trimmed value, discards it, and builds the
  network configuration from the section as supplied. In the load below every string
  has surrounding whitespace. The three fields of the first kind are stored trimmed; the
  identifiers \<open>VPC_ID\<close>, \<open>SECURITY_GROUP_ID\<close> and the element of \<open>TARGET_SUBNETS\<close> are stored
  with their whitespace, although the validated values are the trimmed ones, and each
  stored value is one that the loader's own format validator rejects. The check of the
  elements is not skipped: the same file with a second, malformed subnet fails with
  that subnet's error.
\<close>

theorem padded_network_identifiers_stored:
  "load_parsed (JObj [(''projectName'', JStr ''  test-project  ''),
       (''account'', JObj [(''id'', JStr '' 123456789012''), (''region'', JStr ''us-west-2 ''),
                           (''prodLike'', JBool False)]),
       (''networkConfig'', JObj [(''VPC_ID'', JStr '' vpc-12345678''),
                                 (''TARGET_SUBNETS'', JArr [JStr '' subnet-12345678'']),
                                 (''SECURITY_GROUP_ID'', JStr ''sg-12345678 '')])]) =
     Inr \<lparr>projectName = ''test-project'',
            account = \<lparr>id' = ''123456789012'', region = ''us-west-2'', prodLike = False,
                       isAdc = False\<rparr>,
            networkConfig = Some
              \<lparr>own_properties =
                 [(''VPC_NAME'', JStr ''tile-server-vpc''),
                  (''SECURITY_GROUP_NAME'', JStr ''tile-server-security-group''),
                  (''VPC_ID'', JStr '' vpc-12345678''),
                  (''TARGET_SUBNETS'', JArr [JStr '' subnet-12345678'']),
                  (''SECURITY_GROUP_ID'', JStr ''sg-12345678 '')],
               replaced_prototype = None\<rparr>,
            dataplaneConfig = None, deployIntegrationTests = True,
            testImageryConfig = None, testConfig = None\<rparr>
   \<and> validateStringField (JStr '' vpc-12345678'') ''networkConfig.VPC_ID'' True
       = Inr ''vpc-12345678''
   \<and> validateStringField (JStr '' subnet-12345678'') ''networkConfig.TARGET_SUBNETS[]'' True
       = Inr ''subnet-12345678''
   \<and> validateStringField (JStr ''sg-12345678 '') ''networkConfig.SECURITY_GROUP_ID'' True
       = Inr ''sg-12345678''
   \<and> throws (validateVpcId '' vpc-12345678'')
   \<and> throws (validateSubnetId '' subnet-12345678'')
   \<and> throws (validateSecurityGroupId ''sg-12345678 '')
   \<and> load_parsed (JObj [(''projectName'', JStr ''  test-project  ''),
       (''account'', JObj [(''id'', JStr '' 123456789012''), (''region'', JStr ''us-west-2 ''),
                           (''prodLike'', JBool False)]),
       (''networkConfig'', JObj [(''VPC_ID'', JStr '' vpc-12345678''),
                                 (''TARGET_SUBNETS'', JArr [JStr '' subnet-12345678'',
                                                            JStr ''invalid-subnet-id''])])]) =
     Inl (DeploymentConfigError
            (''Invalid Subnet ID format: '' @ [CHR 0x27] @ ''invalid-subnet-id'' @ [CHR 0x27]
              @ ''. Must start with '' @ [CHR 0x27] @ ''subnet-'' @ [CHR 0x27]
              @ '' followed by 8 or 17 hexadecimal characters.'')
            (Some ''networkConfig.targetSubnets''))"
proof -
  have "throws (validateVpcId '' vpc-12345678'')"
    unfolding validateVpcId_bad [OF shapes_padded(4)] by (rule throws_Inl)
  moreover have "throws (validateSubnetId '' subnet-12345678'')"
    unfolding validateSubnetId_bad [OF shapes_padded(5)] by (rule throws_Inl)
  moreover have "throws (validateSecurityGroupId ''sg-12345678 '')"
    unfolding validateSecurityGroupId_bad [OF shapes_padded(6)] by (rule throws_Inl)
  ultimately show ?thesis
    using load_padded_file load_bad_subnet padded_validated(1-3) by (intro conjI)
qed

end
